theory Spec2Isabelle
  imports Main
begin

section \<open>JavaScript strings and numbers\<close>

text \<open>
  A JavaScript string is modelled as a \<^typ>\<open>string\<close>, one \<^typ>\<open>char\<close> per code unit; the
  code units covered are those below 256.  The regular expressions of the sources only name
  ASCII characters, and among the code units below 256 the class \<^verbatim>\<open>\s\<close> (and what
  \<^verbatim>\<open>trim\<close> strips) is TAB, LF, VT, FF, CR, SPACE and NBSP.
\<close>

abbreviation CR :: char where "CR \<equiv> CHR 0x0D"
abbreviation LF :: char where "LF \<equiv> CHR 0x0A"
abbreviation CRLF :: string where "CRLF \<equiv> [CR, LF]"

definition isDigit :: "char \<Rightarrow> bool" where
  "isDigit c = (c \<in> set ''0123456789'')"

definition isWhiteSpace :: "char \<Rightarrow> bool" where
  "isWhiteSpace c = (c \<in> {CHR 0x09, CHR 0x0A, CHR 0x0B, CHR 0x0C, CHR 0x0D, CHR 0x20, CHR 0xA0})"

definition isLineTerminator :: "char \<Rightarrow> bool" where
  "isLineTerminator c = (c = LF \<or> c = CR)"

definition digitVal :: "char \<Rightarrow> int" where
  "digitVal c = int (of_char c) - 48"

text \<open>A JavaScript number as far as the sources use one: an integer, or NaN.\<close>

datatype js_num = Num int | NaN

text \<open>
  \<^verbatim>\<open>parseInt(s, 10)\<close>: leading white space is skipped, one sign is read, then the longest
  run of decimal digits; no digit at all gives NaN.
\<close>

definition parseInt :: "string \<Rightarrow> js_num" where
  "parseInt s =
     (let t = dropWhile isWhiteSpace s;
          neg = (t \<noteq> [] \<and> hd t = CHR ''-'');
          u = (if t \<noteq> [] \<and> (hd t = CHR ''-'' \<or> hd t = CHR ''+'') then tl t else t);
          ds = takeWhile isDigit u
      in if ds = [] then NaN
         else Num ((if neg then - 1 else 1) * foldl (\<lambda>a c. 10 * a + digitVal c) 0 ds))"

text \<open>\<^verbatim>\<open>s.trim()\<close>.\<close>

definition trim :: "string \<Rightarrow> string" where
  "trim s = rev (dropWhile isWhiteSpace (rev (dropWhile isWhiteSpace s)))"

text \<open>\<^verbatim>\<open>parts.join(" ")\<close>.\<close>

fun joinSpace :: "string list \<Rightarrow> string" where
  "joinSpace [] = []"
| "joinSpace [x] = x"
| "joinSpace (x # y # r) = x @ '' '' @ joinSpace (y # r)"

text \<open>\<^verbatim>\<open>s.includes(sub)\<close>.\<close>

fun includesStr :: "string \<Rightarrow> string \<Rightarrow> bool" where
  "includesStr [] sub = (sub = [])"
| "includesStr (c # cs) sub = (take (length sub) (c # cs) = sub \<or> includesStr cs sub)"

text \<open>\<^verbatim>\<open>s.replace(pat, rep)\<close> with a string pattern: the first occurrence only.\<close>

fun replaceFirst :: "string \<Rightarrow> string \<Rightarrow> string \<Rightarrow> string" where
  "replaceFirst [] pat rep = (if pat = [] then rep else [])"
| "replaceFirst (c # cs) pat rep =
     (if take (length pat) (c # cs) = pat then rep @ drop (length pat) (c # cs)
      else c # replaceFirst cs pat rep)"

text \<open>\<^verbatim>\<open>s.replace(/\s+/g, " ")\<close>: every maximal run of white space becomes one space.\<close>

function collapseSpaces :: "string \<Rightarrow> string" where
  "collapseSpaces [] = []"
| "collapseSpaces (c # cs) =
     (if isWhiteSpace c then CHR '' '' # collapseSpaces (dropWhile isWhiteSpace cs)
      else c # collapseSpaces cs)"
  by pat_completeness auto
termination
  by (relation "measure length") (auto simp: length_dropWhile_le less_Suc_eq_le)

text \<open>
  \<^verbatim>\<open>s.split(/\r?\n/)\<close>: the string is cut at every LF, and a CR right before the LF
  belongs to the separator.  The empty string gives one empty piece.
\<close>

fun splitLines :: "string \<Rightarrow> string list" where
  "splitLines [] = [[]]"
| "splitLines (c # cs) =
     (if c = LF then [] # splitLines cs
      else if c = CR \<and> cs \<noteq> [] \<and> hd cs = LF then [] # splitLines (tl cs)
      else (case splitLines cs of [] \<Rightarrow> [[c]] | l # ls \<Rightarrow> (c # l) # ls))"

section \<open>The response parser (src/core/parser.js)\<close>

datatype CLASSIFICATION = SUCCESS | INTERMEDIATE | TRANSIENT_FAIL | PERMANENT_FAIL | PROTOCOL_ERROR

record SmtpResponse =
  code :: js_num
  enhancedCode :: "string option"
  message :: string
  lines :: "string list"
  classification :: CLASSIFICATION

text \<open>Every comparison with NaN is false, so NaN falls through to the last line.\<close>

fun classifyCode :: "js_num \<Rightarrow> CLASSIFICATION" where
  "classifyCode (Num c) =
     (if c \<ge> 200 \<and> c < 300 then SUCCESS
      else if c \<ge> 300 \<and> c < 400 then INTERMEDIATE
      else if c \<ge> 400 \<and> c < 500 then TRANSIENT_FAIL
      else if c \<ge> 500 \<and> c < 600 then PERMANENT_FAIL
      else PROTOCOL_ERROR)"
| "classifyCode NaN = PROTOCOL_ERROR"

text \<open>
  \<^verbatim>\<open>\d{1,3}\<close> at the head of a string: the digits matched and the rest.  What follows
  it in the pattern is never a digit, so only the longest run of at most three digits can
  lead to a match.
\<close>

definition digitRun :: "string \<Rightarrow> (string \<times> string) option" where
  "digitRun s =
     (let ds = takeWhile isDigit (take 3 s)
      in if ds = [] then None else Some (ds, drop (length ds) s))"

text \<open>One character of the pattern: the rest of the string when the head fits.\<close>

definition expectChar :: "(char \<Rightarrow> bool) \<Rightarrow> string \<Rightarrow> string option" where
  "expectChar P s = (case s of [] \<Rightarrow> None | c # r \<Rightarrow> if P c then Some r else None)"

text \<open>
  \<^verbatim>\<open>line.match(/^\d{3}[ -](\d{1,3}\.\d{1,3}\.\d{1,3})\s/)\<close>, returning the group.
\<close>

definition extractEnhancedCode :: "string \<Rightarrow> string option" where
  "extractEnhancedCode line =
     (case line of
        d1 # d2 # d3 # sep # r0 \<Rightarrow>
          if isDigit d1 \<and> isDigit d2 \<and> isDigit d3 \<and> (sep = CHR '' '' \<or> sep = CHR ''-'') then
            (case digitRun r0 of None \<Rightarrow> None | Some (a, r1) \<Rightarrow>
            (case expectChar (\<lambda>c. c = CHR ''.'') r1 of None \<Rightarrow> None | Some r2 \<Rightarrow>
            (case digitRun r2 of None \<Rightarrow> None | Some (b, r3) \<Rightarrow>
            (case expectChar (\<lambda>c. c = CHR ''.'') r3 of None \<Rightarrow> None | Some r4 \<Rightarrow>
            (case digitRun r4 of None \<Rightarrow> None | Some (c, r5) \<Rightarrow>
            (case expectChar isWhiteSpace r5 of None \<Rightarrow> None | Some _ \<Rightarrow>
               Some (a @ ''.'' @ b @ ''.'' @ c)))))))
          else None
      | _ \<Rightarrow> None)"

text \<open>
  \<^verbatim>\<open>lastLine.match(/^(\d{3})(?: (.*)|$)/)\<close>: the two groups, the second one absent when
  the line ends after the digits.  The dot stops at a line terminator.
\<close>

definition lastLineMatch :: "string \<Rightarrow> (string \<times> string option) option" where
  "lastLineMatch l =
     (case l of
        d1 # d2 # d3 # r \<Rightarrow>
          if isDigit d1 \<and> isDigit d2 \<and> isDigit d3 then
            (case r of
               [] \<Rightarrow> Some ([d1, d2, d3], None)
             | c # cs \<Rightarrow>
                 if c = CHR '' '' then Some ([d1, d2, d3], Some (takeWhile (\<lambda>x. \<not> isLineTerminator x) cs))
                 else None)
          else None
      | _ \<Rightarrow> None)"

text \<open>\<^verbatim>\<open>/^\d{3}-/.test(lastLine)\<close>.\<close>

definition isIntermediate :: "string \<Rightarrow> bool" where
  "isIntermediate l =
     (case l of d1 # d2 # d3 # c # _ \<Rightarrow> isDigit d1 \<and> isDigit d2 \<and> isDigit d3 \<and> c = CHR ''-''
      | _ \<Rightarrow> False)"

text \<open>The loop over the lines that stops at the first enhanced code.\<close>

fun firstEnhancedCode :: "string list \<Rightarrow> string option" where
  "firstEnhancedCode [] = None"
| "firstEnhancedCode (l # ls) =
     (case extractEnhancedCode l of Some ec \<Rightarrow> Some ec | None \<Rightarrow> firstEnhancedCode ls)"

text \<open>The non-empty pieces of the buffer: \<^verbatim>\<open>split(/\r?\n/).filter(line => line.length > 0)\<close>.\<close>

definition bufferLines :: "string \<Rightarrow> string list" where
  "bufferLines rawBuffer = filter (\<lambda>line. length line > 0) (splitLines rawBuffer)"

text \<open>
  \<^verbatim>\<open>parseSmtpResponse(rawBuffer)\<close>; \<open>None\<close> is the \<^verbatim>\<open>null\<close> of an incomplete response.
  No step of it can throw on a string: \<^verbatim>\<open>substring(4)\<close> of a short line is empty, and
  the group is read only after the match succeeded.
\<close>

definition parseSmtpResponse :: "string \<Rightarrow> SmtpResponse option" where
  "parseSmtpResponse rawBuffer =
     (if rawBuffer = [] then None
      else let ls = bufferLines rawBuffer in
        if length ls = 0 then None
        else let lastLine = ls ! (length ls - 1) in
          (case lastLineMatch lastLine of
             None \<Rightarrow> None
           | Some (g1, g2) \<Rightarrow>
               if isIntermediate lastLine then None
               else
                 let c = parseInt g1;
                     rawMessage = trim (joinSpace (map (drop 4) ls));
                     ec = firstEnhancedCode ls;
                     cleanMessage =
                       (case ec of
                          None \<Rightarrow> rawMessage
                        | Some e \<Rightarrow> collapseSpaces (trim (replaceFirst rawMessage e [])))
                 in Some \<lparr> code = c, enhancedCode = ec, message = cleanMessage,
                           lines = ls, classification = classifyCode c \<rparr>))"

subsection \<open>The framing rule in the specification's words\<close>

text \<open>A line of three digits followed by the end of the line or by a space.\<close>

definition completeLine :: "string \<Rightarrow> bool" where
  "completeLine l =
     (length l \<ge> 3 \<and> list_all isDigit (take 3 l) \<and> (length l = 3 \<or> l ! 3 = CHR '' ''))"

text \<open>A line of three digits followed by a hyphen.\<close>

definition continuationLine :: "string \<Rightarrow> bool" where
  "continuationLine l = (length l \<ge> 4 \<and> list_all isDigit (take 3 l) \<and> l ! 3 = CHR ''-'')"


section \<open>More string operations\<close>

abbreviation DQ :: char where "DQ \<equiv> CHR 0x22"

text \<open>\<^verbatim>\<open>s.split(sep)\<close> for a separator of one character.\<close>

fun splitOn :: "char \<Rightarrow> string \<Rightarrow> string list" where
  "splitOn sep [] = [[]]"
| "splitOn sep (c # cs) =
     (if c = sep then [] # splitOn sep cs
      else (case splitOn sep cs of [] \<Rightarrow> [[c]] | l # ls \<Rightarrow> (c # l) # ls))"

text \<open>\<^verbatim>\<open>String(n)\<close> for an integer, in decimal.\<close>

definition digitChar :: "nat \<Rightarrow> char" where
  "digitChar d = ''0123456789'' ! (d mod 10)"

fun natToString :: "nat \<Rightarrow> string" where
  "natToString n = (if n < 10 then [digitChar n] else natToString (n div 10) @ [digitChar (n mod 10)])"

declare natToString.simps [simp del]

definition numberToString :: "int \<Rightarrow> string" where
  "numberToString i = (if i < 0 then CHR ''-'' # natToString (nat (- i)) else natToString (nat i))"

fun jsNumToString :: "js_num \<Rightarrow> string" where
  "jsNumToString (Num i) = numberToString i"
| "jsNumToString NaN = ''NaN''"

section \<open>The DNS resolver (src/core/dns.js)\<close>

datatype ERROR_TYPES = HARD_FAIL | SOFT_FAIL | TIMEOUT | NO_MX_RECORDS | INVALID_DOMAIN

text \<open>
  An \<^verbatim>\<open>Error\<close> object with the fields the resolver attaches to it.  An absent
  \<^verbatim>\<open>message\<close> or \<^verbatim>\<open>code\<close> is the empty string, which the sources treat alike
  (\<^verbatim>\<open>err.code || ""\<close>).
\<close>

datatype js_error =
  JsError (err_message: string) (err_code: string) (err_type: "ERROR_TYPES option")
    (err_attempts: "int option") (err_originalError: "js_error option")

text \<open>\<^verbatim>\<open>new Error(msg)\<close>.\<close>

definition newError :: "string \<Rightarrow> js_error" where
  "newError msg = JsError msg [] None None None"

fun setType :: "ERROR_TYPES \<Rightarrow> js_error \<Rightarrow> js_error" where
  "setType t (JsError m c _ a oe) = JsError m c (Some t) a oe"

fun setCode :: "string \<Rightarrow> js_error \<Rightarrow> js_error" where
  "setCode c (JsError m _ t a oe) = JsError m c t a oe"

fun setAttempts :: "int \<Rightarrow> js_error \<Rightarrow> js_error" where
  "setAttempts a (JsError m c t _ oe) = JsError m c t (Some a) oe"

fun setOriginalError :: "js_error option \<Rightarrow> js_error \<Rightarrow> js_error" where
  "setOriginalError oe (JsError m c t a _) = JsError m c t a oe"

text \<open>\<^verbatim>\<open>err.code = err.code || dflt\<close>.\<close>

definition defaultCode :: "string \<Rightarrow> js_error \<Rightarrow> js_error" where
  "defaultCode dflt err = (if err_code err = [] then setCode dflt err else err)"

text \<open>The name servers of the three tiers and the retry count of \<^verbatim>\<open>DNS_CONFIG\<close>.\<close>

definition PRIMARY_SERVERS :: "string list" where
  "PRIMARY_SERVERS = [''8.8.8.8'', ''8.8.4.4'']"

definition FALLBACK_SERVERS :: "string list" where
  "FALLBACK_SERVERS = [''1.1.1.1'', ''1.0.0.1'']"

definition SECONDARY_SERVERS :: "string list" where
  "SECONDARY_SERVERS = [''9.9.9.9'', ''149.112.112.112'']"

definition MAX_RETRIES :: int where
  "MAX_RETRIES = 2"

text \<open>
  \<^verbatim>\<open>classifyError(err)\<close> looks at the message and the code of the error only, never at
  its \<^verbatim>\<open>type\<close> field.
\<close>

definition classifyError :: "js_error \<Rightarrow> ERROR_TYPES" where
  "classifyError err =
     (let message = err_message err; code = err_code err in
      if code = ''ETIMEDOUT'' \<or> includesStr message ''timeout'' \<or> includesStr message ''timed out''
        then TIMEOUT
      else if code = ''ENOTFOUND'' \<or> includesStr message ''NXDOMAIN''
              \<or> includesStr message ''non-existent''
        then HARD_FAIL
      else if code = ''ECONNREFUSED'' \<or> includesStr message ''refused'' then SOFT_FAIL
      else if code = ''SERVFAIL'' \<or> includesStr message ''server failure''
              \<or> includesStr message ''500''
        then SOFT_FAIL
      else if code = ''EINVAL'' \<or> includesStr message ''invalid'' then INVALID_DOMAIN
      else SOFT_FAIL)"

record mx_record =
  exchange :: string
  priority :: "int option"

text \<open>
  \<^verbatim>\<open>parseInt(p, 10) || 65535\<close> for a priority \<open>p\<close> that is a number or missing:
  \<^verbatim>\<open>parseInt\<close> reads the decimal text of its argument, and both NaN and 0 are falsy.
\<close>

definition priorityOr65535 :: "int option \<Rightarrow> int" where
  "priorityOr65535 p =
     (case parseInt (case p of None \<Rightarrow> ''undefined'' | Some n \<Rightarrow> numberToString n) of
        NaN \<Rightarrow> 65535
      | Num v \<Rightarrow> if v = 0 then 65535 else v)"

text \<open>
  \<^verbatim>\<open>sortMXByPriority(mxRecords)\<close>.  \<^verbatim>\<open>Array.prototype.sort\<close> is stable, and the
  comparator is the difference of two keys, so the result is the stable sort by that key.
\<close>

definition sortMXByPriority :: "mx_record list \<Rightarrow> mx_record list" where
  "sortMXByPriority mxRecords =
     (if length mxRecords = 0 then []
      else sort_key (\<lambda>a. priorityOr65535 (priority a)) mxRecords)"

text \<open>
  \<^verbatim>\<open>isValidDomain(domain)\<close>.  The pattern
  \<^verbatim>\<open>/^(?:[a-z0-9](?:[a-z0-9-]{0,61}[a-z0-9])?\.)+[a-z0-9]{2,}$/i\<close> has no dot inside a
  label, so it matches exactly when the pieces between the dots are labels and the last
  piece is two or more letters or digits.
\<close>

definition isAlnum :: "char \<Rightarrow> bool" where
  "isAlnum c =
     (c \<in> set ''abcdefghijklmnopqrstuvwxyz'' \<or> c \<in> set ''ABCDEFGHIJKLMNOPQRSTUVWXYZ''
      \<or> isDigit c)"

definition isLabel :: "string \<Rightarrow> bool" where
  "isLabel l =
     (l \<noteq> [] \<and> length l \<le> 63 \<and> isAlnum (hd l) \<and> isAlnum (last l)
      \<and> list_all (\<lambda>c. isAlnum c \<or> c = CHR ''-'') l)"

definition domainRegex :: "string \<Rightarrow> bool" where
  "domainRegex domain =
     (let parts = splitOn (CHR ''.'') domain in
      length parts \<ge> 2 \<and> list_all isLabel (butlast parts)
      \<and> length (last parts) \<ge> 2 \<and> list_all isAlnum (last parts))"

definition isValidDomain :: "string \<Rightarrow> bool" where
  "isValidDomain domain = (length domain > 0 \<and> length domain \<le> 253 \<and> domainRegex domain)"

subsection \<open>Queries\<close>

text \<open>
  One answer of a DNS reply as the resolver library hands it over: the record type, and the
  exchange and priority either at the top level or under \<^verbatim>\<open>data\<close>.
\<close>

record answer_data =
  data_exchange :: "string option"
  data_priority :: "int option"

record dns_answer =
  answer_type :: int
  answer_exchange :: "string option"
  answer_priority :: "int option"
  answer_data :: "answer_data option"

text \<open>
  What one attempt, \<^verbatim>\<open>Promise.race([resolver.resolve(domain, "MX"), timeoutPromise])\<close>,
  settles to: a reply (\<open>None\<close> when the reply or its \<^verbatim>\<open>answers\<close> field is missing), a
  rejection by the library, or the timer of the attempt firing first.
\<close>

datatype query_outcome =
  Resolved "dns_answer list option"
| Rejected js_error
| TimerFired

text \<open>
  The network: what the \<open>k\<close>-th query of a run settles to, given the name servers asked
  and the domain.  The second component of every result below counts the queries made.
\<close>

type_synonym dns_env = "nat \<Rightarrow> string list \<Rightarrow> string \<Rightarrow> query_outcome"

text \<open>\<^verbatim>\<open>answer.exchange || answer.data?.exchange || ""\<close>.\<close>

definition exchangeOf :: "dns_answer \<Rightarrow> string" where
  "exchangeOf answer =
     (case answer_exchange answer of
        Some e \<Rightarrow> if e \<noteq> [] then e else
          (case answer_data answer of
             None \<Rightarrow> []
           | Some d \<Rightarrow> (case data_exchange d of Some e' \<Rightarrow> e' | None \<Rightarrow> []))
      | None \<Rightarrow>
          (case answer_data answer of
             None \<Rightarrow> []
           | Some d \<Rightarrow> (case data_exchange d of Some e' \<Rightarrow> e' | None \<Rightarrow> [])))"

text \<open>\<^verbatim>\<open>answer.priority ?? answer.data?.priority ?? 65535\<close>.\<close>

definition priorityOf :: "dns_answer \<Rightarrow> int" where
  "priorityOf answer =
     (case answer_priority answer of
        Some p \<Rightarrow> p
      | None \<Rightarrow>
          (case answer_data answer of
             None \<Rightarrow> 65535
           | Some d \<Rightarrow> (case data_priority d of Some p \<Rightarrow> p | None \<Rightarrow> 65535)))"

text \<open>
  The body of the \<^verbatim>\<open>try\<close> block of \<^verbatim>\<open>resolveMX\<close>: one query, then the records
  of type MX (15) with a non-empty exchange, sorted.
\<close>

definition resolveMX_try :: "query_outcome \<Rightarrow> string \<Rightarrow> js_error + mx_record list" where
  "resolveMX_try outcome domain =
     (case outcome of
        TimerFired \<Rightarrow> Inl (newError ''DNS query timeout'')
      | Rejected err \<Rightarrow> Inl err
      | Resolved result \<Rightarrow>
          if result = None \<or> length (the result) = 0 then
            Inl (setCode ''ENODATA'' (setType NO_MX_RECORDS
                   (newError (''No MX records found for domain: '' @ [DQ] @ domain @ [DQ]))))
          else
            let mxRecords =
                  filter (\<lambda>mx. exchange mx \<noteq> [])
                    (map (\<lambda>answer. \<lparr> exchange = exchangeOf answer,
                                      priority = Some (priorityOf answer) \<rparr>)
                       (filter (\<lambda>answer. answer_type answer = 15) (the result)))
            in if length mxRecords = 0 then
                 Inl (setCode ''ENODATA'' (setType NO_MX_RECORDS
                        (newError (''No valid MX records found for domain: '' @ [DQ] @ domain @ [DQ]))))
               else Inr (sortMXByPriority mxRecords))"

text \<open>
  The \<^verbatim>\<open>while (attempt < maxAttempts)\<close> loop of \<^verbatim>\<open>resolveMX\<close> and the lines after it.
  \<open>q\<close> is the number of queries made so far.  The delay between two attempts takes time
  only.  With no attempt made (a negative retry count) \<^verbatim>\<open>lastError\<close> is still
  \<^verbatim>\<open>null\<close> after the loop, and assigning its \<^verbatim>\<open>type\<close> is a TypeError.
\<close>

function resolveMX_loop ::
  "dns_env \<Rightarrow> string \<Rightarrow> string list \<Rightarrow> int \<Rightarrow> nat \<Rightarrow> js_error option \<Rightarrow> nat
     \<Rightarrow> (js_error + mx_record list) \<times> nat" where
  "resolveMX_loop env domain nameServers maxAttempts attempt lastError q =
     (if int attempt < maxAttempts then
        (case resolveMX_try (env q nameServers domain) domain of
           Inr recs \<Rightarrow> (Inr recs, Suc q)
         | Inl err \<Rightarrow>
             let errorType = classifyError err;
                 isHardFail = (errorType = HARD_FAIL \<or> errorType = INVALID_DOMAIN
                                \<or> errorType = NO_MX_RECORDS)
             in if isHardFail then
                  (Inl (defaultCode ''EDNS_HARD_FAIL'' (setType errorType err)), Suc q)
                else resolveMX_loop env domain nameServers maxAttempts (Suc attempt) (Some err) (Suc q))
      else
        (case lastError of
           None \<Rightarrow> (Inl (newError ''Cannot set properties of null (setting 'type')''), q)
         | Some e \<Rightarrow>
             (Inl (setAttempts maxAttempts
                     (defaultCode ''EDNS_RETRIES_EXHAUSTED'' (setType SOFT_FAIL e))), q)))"
  by pat_completeness auto
termination
  by (relation "measure (\<lambda>(env, domain, nameServers, maxAttempts, attempt, lastError, q).
                  nat (maxAttempts - int attempt))") auto

declare resolveMX_loop.simps [simp del]

text \<open>\<^verbatim>\<open>resolveMX(domain, {nameServers, retries})\<close>, started with \<open>q\<close> queries made.\<close>

definition resolveMX ::
  "dns_env \<Rightarrow> string \<Rightarrow> string list \<Rightarrow> int \<Rightarrow> nat \<Rightarrow> (js_error + mx_record list) \<times> nat" where
  "resolveMX env domain nameServers retries q =
     (if \<not> isValidDomain domain then
        (Inl (setCode ''EINVAL'' (setType INVALID_DOMAIN
                (newError (''Invalid domain format: '' @ [DQ] @ domain @ [DQ])))), q)
      else resolveMX_loop env domain nameServers (retries + 1) 0 None q)"

text \<open>
  The options a caller may pass on: they override the name servers and the retry count of
  every tier (\<^verbatim>\<open>...options\<close> comes last in the object literal).
\<close>

record dns_options =
  opt_nameServers :: "string list option"
  opt_retries :: "int option"

definition noOptions :: dns_options where
  "noOptions = \<lparr> opt_nameServers = None, opt_retries = None \<rparr>"

text \<open>The \<^verbatim>\<open>for\<close> loop of \<^verbatim>\<open>resolveMXWithFallback\<close> over the tiers still to try.\<close>

fun resolverChain_loop ::
  "dns_env \<Rightarrow> string \<Rightarrow> dns_options \<Rightarrow> string list list \<Rightarrow> js_error option \<Rightarrow> nat
     \<Rightarrow> (js_error + mx_record list) \<times> nat" where
  "resolverChain_loop env domain options [] lastError q =
     (Inl (setOriginalError lastError
             (setCode ''EDNS_ALL_RESOLVERS_FAILED'' (setType SOFT_FAIL
                (newError (''MX resolution failed across all DNS servers for '' @ [DQ] @ domain @ [DQ]))))),
      q)"
| "resolverChain_loop env domain options (tier # tiers) lastError q =
     (case resolveMX env domain
             (case opt_nameServers options of Some ns \<Rightarrow> ns | None \<Rightarrow> tier)
             (case opt_retries options of Some r \<Rightarrow> r | None \<Rightarrow> MAX_RETRIES) q of
        (Inr recs, q') \<Rightarrow> (Inr recs, q')
      | (Inl err, q') \<Rightarrow>
          let isHardFail = (err_type err = Some HARD_FAIL \<or> err_type err = Some INVALID_DOMAIN)
          in if isHardFail then (Inl err, q')
             else resolverChain_loop env domain options tiers (Some err) q')"

definition resolveMXWithFallback ::
  "dns_env \<Rightarrow> string \<Rightarrow> dns_options \<Rightarrow> nat \<Rightarrow> (js_error + mx_record list) \<times> nat" where
  "resolveMXWithFallback env domain options q =
     resolverChain_loop env domain options
       [PRIMARY_SERVERS, FALLBACK_SERVERS, SECONDARY_SERVERS] None q"

text \<open>
  The object \<^verbatim>\<open>getMXRecords\<close> returns, without its time stamp.  The function catches
  every error of the resolution and copies four of its fields: the message, the type (absent
  where the source writes \<^verbatim>\<open>"UNKNOWN"\<close>), the code or \<^verbatim>\<open>"UNKNOWN"\<close>, and the
  attempts or 1.
\<close>

record mx_result =
  success :: bool
  result_domain :: string
  records :: "mx_record list"
  recordCount :: nat
  result_error :: "js_error option"

definition getMXRecords :: "dns_env \<Rightarrow> string \<Rightarrow> dns_options \<Rightarrow> nat \<Rightarrow> mx_result \<times> nat" where
  "getMXRecords env domain options q =
     (case resolveMXWithFallback env domain options q of
        (Inr recs, q') \<Rightarrow>
          (\<lparr> success = True, result_domain = domain, records = recs,
             recordCount = length recs, result_error = None \<rparr>, q')
      | (Inl err, q') \<Rightarrow>
          (\<lparr> success = False, result_domain = domain, records = [], recordCount = 0,
             result_error =
               Some (JsError (err_message err)
                       (if err_code err = [] then ''UNKNOWN'' else err_code err)
                       (err_type err)
                       (Some (case err_attempts err of
                                None \<Rightarrow> 1
                              | Some a \<Rightarrow> if a = 0 then 1 else a))
                       None) \<rparr>, q'))"

subsection \<open>Two networks\<close>

text \<open>A network on which every query is answered with an empty reply.\<close>

definition emptyAnswers :: dns_env where
  "emptyAnswers = (\<lambda>k nameServers domain. Resolved (Some []))"

text \<open>A network on which every query is answered with one MX record of priority 10.\<close>

definition oneMX :: dns_env where
  "oneMX = (\<lambda>k nameServers domain.
     Resolved (Some [\<lparr> answer_type = 15, answer_exchange = Some ''mx.example.com'',
                       answer_priority = Some 10, answer_data = None \<rparr>]))"

text \<open>A network on which every query is rejected with NXDOMAIN.\<close>

definition nxdomain :: dns_env where
  "nxdomain = (\<lambda>k nameServers domain. Rejected (newError ''NXDOMAIN''))"

section \<open>Verdicts and the output mapper (src/core/status.js, src/utils/mapper.js)\<close>

datatype STATUS = VALID | INVALID | CATCH_ALL | UNKNOWN | RISKY

record details =
  smtpCode :: "js_num option"
  smtpMessage :: "string option"
  catchAllActive :: bool
  greylisted :: bool

record verdict =
  email :: string
  domain :: "string option"
  mx :: "string option"
  status :: STATUS
  reason :: "string option"
  details :: details

record public_result =
  can_connect_smtp :: bool
  is_deliverable :: bool
  is_catch_all :: bool
  has_full_inbox :: bool
  is_disabled :: bool

text \<open>
  A pattern \<^verbatim>\<open>/p1|p2|.../i\<close> of plain phrases, tested against a string: some phrase occurs
  in it, letters compared without regard to case.  The engine compares the upper-case forms
  of the characters, and no character outside ASCII has an ASCII upper-case form that counts,
  so only the letters a to z are folded.
\<close>

definition canonicalize :: "char \<Rightarrow> char" where
  "canonicalize c =
     (case map_of (zip ''abcdefghijklmnopqrstuvwxyz'' ''ABCDEFGHIJKLMNOPQRSTUVWXYZ'') c of
        Some u \<Rightarrow> u
      | None \<Rightarrow> c)"

definition testIgnoreCase :: "string list \<Rightarrow> string \<Rightarrow> bool" where
  "testIgnoreCase phrases msg =
     list_ex (\<lambda>p. includesStr (map canonicalize msg) (map canonicalize p)) phrases"

definition FULL_INBOX :: "string list" where
  "FULL_INBOX = [''quota'', ''full'', ''insufficient storage'', ''storage exceeded'', ''limit exceeded'']"

definition DISABLED :: "string list" where
  "DISABLED = [''disabled'', ''suspended'', ''inactive'', ''deactivated'', ''account closed'', ''not active'']"

text \<open>The truth value of \<^verbatim>\<open>details.smtpCode\<close>: \<^verbatim>\<open>null\<close>, NaN and 0 are falsy.\<close>

definition truthyCode :: "js_num option \<Rightarrow> bool" where
  "truthyCode c = (case c of None \<Rightarrow> False | Some NaN \<Rightarrow> False | Some (Num n) \<Rightarrow> n \<noteq> 0)"

text \<open>
  \<^verbatim>\<open>formatOutput(internalResult)\<close>, one \<^theory_text>\<open>let\<close> per numbered step of the source.  A
  verdict always carries its details, so the fallback \<^verbatim>\<open>internalResult.details || {}\<close>
  is never taken.
\<close>

definition formatOutput :: "verdict \<Rightarrow> public_result" where
  "formatOutput internalResult =
     (let d = details internalResult;
          out0 = \<lparr> can_connect_smtp = False, is_deliverable = False, is_catch_all = False,
                   has_full_inbox = False, is_disabled = False \<rparr>;
          out1 = (if truthyCode (smtpCode d) then out0\<lparr> can_connect_smtp := True \<rparr> else out0);
          out2 = (if status internalResult = VALID then out1\<lparr> is_deliverable := True \<rparr>
                  else if status internalResult = CATCH_ALL
                    then out1\<lparr> is_deliverable := True, is_catch_all := True \<rparr>
                  else out1);
          out3 = (if catchAllActive d then out2\<lparr> is_catch_all := True \<rparr> else out2);
          c = smtpCode d;
          msg = (case smtpMessage d of None \<Rightarrow> [] | Some m \<Rightarrow> m);
          out4 = (if (c = Some (Num 452) \<or> c = Some (Num 552) \<or> c = Some (Num 554))
                     \<and> testIgnoreCase FULL_INBOX msg
                  then out3\<lparr> has_full_inbox := True, is_deliverable := False \<rparr> else out3);
          out5 = (if c = Some (Num 550) \<and> testIgnoreCase DISABLED msg
                  then out4\<lparr> is_disabled := True, is_deliverable := False \<rparr> else out4)
      in out5)"

section \<open>The SMTP session (src/core/smtp-client.js)\<close>

datatype STATE = DISCONNECTED | CONNECTED | HELLO_SENT | MAIL_FROM_SENT | RCPT_TO_SENT | QUIT_SENT

text \<open>What the socket emits while a listener is attached: a chunk of data or an error.\<close>

datatype sock_event = Data string | SockError string

text \<open>
  What an awaited promise does: it never settles, it is rejected with an error (of which
  the callers read the message only), or it is fulfilled with a value.
\<close>

datatype 'a settled = Pending | Rejects string | Fulfils 'a

text \<open>
  The peer and the transport.  \<open>connectResult\<close> is what \<^verbatim>\<open>connectToSmtp\<close> reports: the
  message of its error, or the banner.  The other three fields depend on the commands handed
  to the socket so far: whether the socket is destroyed by then, the error the write of the
  last command calls back with, and the events the socket emits once the listeners of the
  next read are attached, in order of arrival.
\<close>

record smtp_env =
  connectResult :: "string + string"
  destroyed :: "string list \<Rightarrow> bool"
  writeError :: "string list \<Rightarrow> string option"
  events :: "string list \<Rightarrow> sock_event list"

text \<open>
  The fields of \<^verbatim>\<open>SmtpClient\<close>; \<open>socket\<close> tells whether \<^verbatim>\<open>this.socket\<close> is set, and
  \<open>sent\<close> lists the commands handed to the socket so far.
\<close>

record client =
  host :: string
  port :: nat
  state :: STATE
  socket :: bool
  banner :: "string option"
  features :: "string list"
  sent :: "string list"

definition newSmtpClient :: "string \<Rightarrow> nat \<Rightarrow> client" where
  "newSmtpClient smtpHost smtpPort =
     \<lparr> host = smtpHost, port = smtpPort, state = DISCONNECTED, socket = False,
       banner = None, features = [], sent = [] \<rparr>"

text \<open>\<^verbatim>\<open>await\<close>: go on with the value of a fulfilled step, stop at any other.\<close>

definition await ::
  "'a settled \<times> client \<Rightarrow> ('a \<Rightarrow> client \<Rightarrow> 'b settled \<times> client) \<Rightarrow> 'b settled \<times> client" where
  "await step cont =
     (case step of
        (Fulfils x, cl) \<Rightarrow> cont x cl
      | (Rejects e, cl) \<Rightarrow> (Rejects e, cl)
      | (Pending, cl) \<Rightarrow> (Pending, cl))"

text \<open>\<^verbatim>\<open>_write(command)\<close>.\<close>

definition writeCommand :: "smtp_env \<Rightarrow> string \<Rightarrow> client \<Rightarrow> unit settled \<times> client" where
  "writeCommand env command cl =
     (if \<not> socket cl \<or> destroyed env (sent cl) then (Rejects ''Socket not connected'', cl)
      else let cl' = cl\<lparr> sent := sent cl @ [command] \<rparr> in
        (case writeError env (sent cl') of
           Some err \<Rightarrow> (Rejects err, cl')
         | None \<Rightarrow> (Fulfils (), cl')))"

text \<open>
  \<^verbatim>\<open>_readResponse()\<close>, given the events that arrive after the listeners are attached.
  The handler of the first event removes both listeners before anything else, so the
  promise is settled by the first event alone: a chunk is parsed as it is, and an
  incomplete parse rejects.  With no event the promise stays pending.
\<close>

definition readResponse :: "sock_event list \<Rightarrow> SmtpResponse settled" where
  "readResponse evs =
     (case evs of
        [] \<Rightarrow> Pending
      | Data raw # _ \<Rightarrow>
          (case parseSmtpResponse raw of
             Some parsed \<Rightarrow> Fulfils parsed
           | None \<Rightarrow> Rejects ''Empty or invalid SMTP response'')
      | SockError err # _ \<Rightarrow> Rejects err)"

text \<open>\<^verbatim>\<open>connect()\<close>.\<close>

definition connect :: "smtp_env \<Rightarrow> client \<Rightarrow> unit settled \<times> client" where
  "connect env cl =
     (case connectResult env of
        Inl err \<Rightarrow> (Rejects err, cl)
      | Inr b \<Rightarrow> (Fulfils (), cl\<lparr> socket := True, banner := Some b, state := CONNECTED \<rparr>))"

text \<open>\<^verbatim>\<open>response.code >= 500 && response.code <= 502\<close>.\<close>

definition unknownCommand :: "js_num \<Rightarrow> bool" where
  "unknownCommand c = (case c of Num n \<Rightarrow> n \<ge> 500 \<and> n \<le> 502 | NaN \<Rightarrow> False)"

text \<open>The end of \<^verbatim>\<open>sendHello\<close>, from the test of the classification on.\<close>

definition helloDone :: "SmtpResponse \<Rightarrow> client \<Rightarrow> SmtpResponse settled \<times> client" where
  "helloDone response cl =
     (if classification response \<noteq> SUCCESS then
        (Rejects (''Handshake failed: '' @ jsNumToString (code response) @ '' '' @ message response), cl)
      else
        (Fulfils response,
         if length (lines response) > 1
           then cl\<lparr> features := map (\<lambda>l. trim (drop 4 l)) (drop 1 (lines response)) \<rparr>
           else cl))"

text \<open>\<^verbatim>\<open>sendHello(hostname)\<close>; the pauses before the commands take time only.\<close>

definition sendHello :: "smtp_env \<Rightarrow> string \<Rightarrow> client \<Rightarrow> SmtpResponse settled \<times> client" where
  "sendHello env hostname cl =
     (if state cl \<noteq> CONNECTED then (Rejects ''Must connect before sending HELLO'', cl)
      else
        await (writeCommand env (''EHLO '' @ hostname @ CRLF) cl) (\<lambda>_ cl1.
        let cl2 = cl1\<lparr> state := HELLO_SENT \<rparr> in
        await (readResponse (events env (sent cl2)), cl2) (\<lambda>response cl3.
        if unknownCommand (code response) then
          await (writeCommand env (''HELO '' @ hostname @ CRLF) cl3) (\<lambda>_ cl4.
          await (readResponse (events env (sent cl4)), cl4) helloDone)
        else helloDone response cl3)))"

text \<open>\<^verbatim>\<open>sendMailFrom(senderEmail)\<close>.\<close>

definition sendMailFrom :: "smtp_env \<Rightarrow> string \<Rightarrow> client \<Rightarrow> SmtpResponse settled \<times> client" where
  "sendMailFrom env senderEmail cl =
     (if state cl \<noteq> HELLO_SENT then (Rejects ''Must send HELLO before MAIL FROM'', cl)
      else
        await (writeCommand env (''MAIL FROM:<'' @ senderEmail @ ''>'' @ CRLF) cl) (\<lambda>_ cl1.
        await (readResponse (events env (sent cl1)), cl1) (\<lambda>response cl2.
        if classification response \<noteq> SUCCESS then
          (Rejects (''MAIL FROM failed: '' @ jsNumToString (code response) @ '' '' @ message response), cl2)
        else (Fulfils response, cl2\<lparr> state := MAIL_FROM_SENT \<rparr>))))"

text \<open>\<^verbatim>\<open>sendRcptTo(recipientEmail)\<close>.\<close>

definition sendRcptTo :: "smtp_env \<Rightarrow> string \<Rightarrow> client \<Rightarrow> SmtpResponse settled \<times> client" where
  "sendRcptTo env recipientEmail cl =
     (if state cl \<noteq> MAIL_FROM_SENT \<and> state cl \<noteq> RCPT_TO_SENT then
        (Rejects ''Must send MAIL FROM before RCPT TO'', cl)
      else
        await (writeCommand env (''RCPT TO:<'' @ recipientEmail @ ''>'' @ CRLF) cl) (\<lambda>_ cl1.
        await (readResponse (events env (sent cl1)), cl1) (\<lambda>response cl2.
        (Fulfils response, cl2\<lparr> state := RCPT_TO_SENT \<rparr>))))"

text \<open>
  \<^verbatim>\<open>quit()\<close>: an error of the write is swallowed, and \<^verbatim>\<open>closeSocket\<close> always
  resolves, so the call always completes.
\<close>

definition quit :: "smtp_env \<Rightarrow> client \<Rightarrow> client" where
  "quit env cl =
     (let cl1 =
        (if socket cl \<and> \<not> destroyed env (sent cl) then
           (case writeCommand env (''QUIT'' @ CRLF) cl of
              (Fulfils _, cl') \<Rightarrow> cl'\<lparr> state := QUIT_SENT \<rparr>
            | (_, cl') \<Rightarrow> cl')
         else cl)
      in cl1\<lparr> state := DISCONNECTED \<rparr>)"

section \<open>The verifier (src/core/verifier.js)\<close>

text \<open>\<^verbatim>\<open>constants.SMTP.PORT\<close> and \<^verbatim>\<open>constants.SMTP.DEFAULT_HELO\<close>.\<close>

definition SMTP_PORT :: nat where
  "SMTP_PORT = 25"

definition DEFAULT_HELO :: string where
  "DEFAULT_HELO = ''verify.example.com''"

text \<open>The options of a verification that the verifier reads itself.\<close>

record verify_options =
  senderEmail :: "string option"
  helo :: "string option"

text \<open>
  Everything outside the program that one verification meets: the name servers, the mail
  server with the transport to it, and the twelve hexadecimal digits that
  \<^verbatim>\<open>crypto.randomBytes(6)\<close> yields for the probe address.
\<close>

record world =
  dns :: dns_env
  smtp :: smtp_env
  randomHex :: string

text \<open>
  What a verification did besides returning its verdict: the DNS queries made, the calls of
  \<^verbatim>\<open>connectToSmtp\<close>, the commands handed to the socket, and the values of the local
  variables \<^verbatim>\<open>nonceRes\<close> and \<^verbatim>\<open>targetRes\<close> when they were assigned.
\<close>

record effects =
  dnsQueries :: nat
  connectCalls :: nat
  wire :: "string list"
  nonceRes :: "SmtpResponse option"
  targetRes :: "SmtpResponse option"

definition noEffects :: effects where
  "noEffects = \<lparr> dnsQueries = 0, connectCalls = 0, wire = [], nonceRes = None, targetRes = None \<rparr>"

definition generateNonceEmail :: "world \<Rightarrow> string \<Rightarrow> string" where
  "generateNonceEmail w domainName = ''verify-'' @ randomHex w @ ''@'' @ domainName"

text \<open>Step 4 of \<^verbatim>\<open>verifyEmail\<close>: what the answer to the probe writes into the details.\<close>

definition catchAllProbe :: "SmtpResponse \<Rightarrow> verdict \<Rightarrow> verdict" where
  "catchAllProbe nonceR results =
     (if classification nonceR = SUCCESS
        then results\<lparr> details := (details results)\<lparr> catchAllActive := True \<rparr> \<rparr>
      else if classification nonceR = TRANSIENT_FAIL
        then results\<lparr> details := (details results)\<lparr> greylisted := True \<rparr> \<rparr>
      else results)"

text \<open>
  Steps 5 and 6 once the answer to the target address is there: the code and the message are
  recorded, then the chain of \<^verbatim>\<open>if\<close> \<^verbatim>\<open>else if\<close> assigns status and reason.  The chain
  has no final \<^verbatim>\<open>else\<close>.
\<close>

definition finalClassification :: "SmtpResponse \<Rightarrow> verdict \<Rightarrow> verdict" where
  "finalClassification targetR results0 =
     (let results = results0\<lparr> details := (details results0)
                       \<lparr> smtpCode := Some (code targetR), smtpMessage := Some (message targetR) \<rparr> \<rparr>
      in if greylisted (details results) \<or> classification targetR = TRANSIENT_FAIL then
           results\<lparr> status := UNKNOWN, reason := Some ''Greylisted (Try again later)'' \<rparr>
         else if classification targetR = PERMANENT_FAIL then
           results\<lparr> status := INVALID, reason := Some ''Recipient rejected'' \<rparr>
         else if classification targetR = SUCCESS then
           (if catchAllActive (details results) then
              results\<lparr> status := CATCH_ALL, reason := Some ''Domain is Catch-All'' \<rparr>
            else
              results\<lparr> status := VALID,
                       reason := Some ''Recipient accepted (and domain not Catch-All)'' \<rparr>)
         else results)"

text \<open>
  The inner \<^verbatim>\<open>try\<close> block of \<^verbatim>\<open>verifyEmail\<close>: how it ends, with the verdict and the client
  as they are at that moment and the two answers obtained so far.
\<close>

definition verifyEmail_try ::
  "world \<Rightarrow> verify_options \<Rightarrow> string \<Rightarrow> string \<Rightarrow> string \<Rightarrow> verdict \<Rightarrow> client
     \<Rightarrow> unit settled \<times> verdict \<times> client \<times> SmtpResponse option \<times> SmtpResponse option" where
  "verifyEmail_try w options addr domainName sender results cl0 =
     (case await (connect (smtp w) cl0) (\<lambda>_ cl1.
           await (sendHello (smtp w) (case helo options of Some h \<Rightarrow> if h \<noteq> [] then h else DEFAULT_HELO
                                       | None \<Rightarrow> DEFAULT_HELO) cl1) (\<lambda>_ cl2.
           sendMailFrom (smtp w) sender cl2)) of
        (Pending, cl3) \<Rightarrow> (Pending, results, cl3, None, None)
      | (Rejects e, cl3) \<Rightarrow> (Rejects e, results, cl3, None, None)
      | (Fulfils _, cl3) \<Rightarrow>
          (case sendRcptTo (smtp w) (generateNonceEmail w domainName) cl3 of
             (Pending, cl4) \<Rightarrow> (Pending, results, cl4, None, None)
           | (Rejects e, cl4) \<Rightarrow> (Rejects e, results, cl4, None, None)
           | (Fulfils nonceR, cl4) \<Rightarrow>
               let results1 = catchAllProbe nonceR results in
               (case sendRcptTo (smtp w) addr cl4 of
                  (Pending, cl5) \<Rightarrow> (Pending, results1, cl5, Some nonceR, None)
                | (Rejects e, cl5) \<Rightarrow> (Rejects e, results1, cl5, Some nonceR, None)
                | (Fulfils targetR, cl5) \<Rightarrow>
                    (Fulfils (), finalClassification targetR results1, cl5,
                     Some nonceR, Some targetR))))"

text \<open>The object \<^verbatim>\<open>results\<close> as \<^verbatim>\<open>verifyEmail\<close> creates it.\<close>

definition initialResults :: "string \<Rightarrow> verdict" where
  "initialResults addr =
     \<lparr> email = addr, domain = None, mx = None, status = UNKNOWN, reason = None,
       details = \<lparr> smtpCode = None, smtpMessage = None,
                   catchAllActive = False, greylisted = False \<rparr> \<rparr>"

text \<open>
  \<^verbatim>\<open>verifyEmail(email, options)\<close>.  \<open>None\<close> means that the call never returns: no read
  of the session has a timer of its own.  \<^verbatim>\<open>getMXRecords\<close> and \<^verbatim>\<open>quit\<close> cannot
  throw, so the outer \<^verbatim>\<open>catch\<close> is never entered.  Destructuring the split takes its first
  two pieces, whatever comes after them.
\<close>

definition verifyEmail :: "world \<Rightarrow> string \<Rightarrow> verify_options \<Rightarrow> (verdict \<times> effects) option" where
  "verifyEmail w addr options =
     (let results0 = initialResults addr;
          invalidSyntax = results0\<lparr> status := INVALID, reason := Some ''Invalid email syntax'' \<rparr>
      in
      if addr = [] \<or> \<not> includesStr addr ''@'' then Some (invalidSyntax, noEffects)
      else
        (case splitOn (CHR ''@'') addr of
           user # domainName # _ \<Rightarrow>
             if user = [] \<or> domainName = [] then Some (invalidSyntax, noEffects)
             else
               let results1 = results0\<lparr> domain := Some domainName \<rparr>;
                   sender = (case senderEmail options of
                               Some s \<Rightarrow> if s \<noteq> [] then s else ''verify@'' @ domainName
                             | None \<Rightarrow> ''verify@'' @ domainName);
                   (mxResult, q) = getMXRecords (dns w) domainName noOptions 0
               in
               if \<not> success mxResult \<or> length (records mxResult) = 0 then
                 Some (results1\<lparr> status := INVALID, reason := Some ''No MX records found'' \<rparr>,
                       noEffects\<lparr> dnsQueries := q \<rparr>)
               else
                 let mxRecord = hd (records mxResult);
                     results2 = results1\<lparr> mx := Some (exchange mxRecord) \<rparr>;
                     cl0 = newSmtpClient (exchange mxRecord) SMTP_PORT
                 in
                 (case verifyEmail_try w options addr domainName sender results2 cl0 of
                    (Pending, _, _, _, _) \<Rightarrow> None
                  | (Rejects e, results3, cl, nr, tr) \<Rightarrow>
                      let cl' = quit (smtp w) cl in
                      Some (results3\<lparr> reason := Some (''SMTP Error: '' @ e) \<rparr>,
                            \<lparr> dnsQueries = q, connectCalls = 1, wire = sent cl',
                              nonceRes = nr, targetRes = tr \<rparr>)
                  | (Fulfils _, results3, cl, nr, tr) \<Rightarrow>
                      let cl' = quit (smtp w) cl in
                      Some (results3,
                            \<lparr> dnsQueries = q, connectCalls = 1, wire = sent cl',
                              nonceRes = nr, targetRes = tr \<rparr>))
         | _ \<Rightarrow> Some (invalidSyntax, noEffects)))"

subsection \<open>Three mail servers\<close>

text \<open>A transport without faults to a server whose answers are given by \<open>reply\<close>.\<close>

definition server :: "(string list \<Rightarrow> string) \<Rightarrow> smtp_env" where
  "server reply =
     \<lparr> connectResult = Inr (''220 mx.example.com ESMTP'' @ CRLF),
       destroyed = (\<lambda>cmds. False),
       writeError = (\<lambda>cmds. None),
       events = (\<lambda>cmds. [Data (reply cmds)]) \<rparr>"

text \<open>A server that accepts every command.\<close>

definition acceptAll :: world where
  "acceptAll = \<lparr> dns = oneMX, smtp = server (\<lambda>cmds. ''250 OK'' @ CRLF),
                 randomHex = ''0123456789ab'' \<rparr>"

text \<open>A server that accepts every command but answers 354 to the address \<^verbatim>\<open>user@example.com\<close>.\<close>

definition answers354 :: world where
  "answers354 =
     \<lparr> dns = oneMX,
       smtp = server (\<lambda>cmds. if last cmds = ''RCPT TO:<user@example.com>'' @ CRLF
                              then ''354 Start mail input'' @ CRLF else ''250 OK'' @ CRLF),
       randomHex = ''0123456789ab'' \<rparr>"

text \<open>A world without MX records, where no server is ever asked.\<close>

definition noMail :: world where
  "noMail = \<lparr> dns = emptyAnswers, smtp = server (\<lambda>cmds. ''250 OK'' @ CRLF),
              randomHex = ''0123456789ab'' \<rparr>"

text \<open>A server that rejects the probe address and accepts every other command.\<close>

definition rejectsProbe :: world where
  "rejectsProbe =
     \<lparr> dns = oneMX,
       smtp = server (\<lambda>cmds. if last cmds = ''RCPT TO:<verify-0123456789ab@example.com>'' @ CRLF
                              then ''550 5.1.1 No such user'' @ CRLF else ''250 OK'' @ CRLF),
       randomHex = ''0123456789ab'' \<rparr>"

definition defaultOptions :: verify_options where
  "defaultOptions = \<lparr> senderEmail = None, helo = None \<rparr>"

subsection \<open>The syntax gate in words\<close>

text \<open>The text before the first \<^verbatim>\<open>@\<close>.\<close>

definition localPart :: "string \<Rightarrow> string" where
  "localPart addr = takeWhile (\<lambda>c. c \<noteq> CHR ''@'') addr"

text \<open>The text between the first \<^verbatim>\<open>@\<close> and the second one, or the end.\<close>

definition domainPart :: "string \<Rightarrow> string" where
  "domainPart addr =
     takeWhile (\<lambda>c. c \<noteq> CHR ''@'') (drop 1 (dropWhile (\<lambda>c. c \<noteq> CHR ''@'') addr))"

text \<open>At least one \<^verbatim>\<open>@\<close>, with text before it and text after it.\<close>

definition passesSyntaxGate :: "string \<Rightarrow> bool" where
  "passesSyntaxGate addr = (CHR ''@'' \<in> set addr \<and> localPart addr \<noteq> [] \<and> domainPart addr \<noteq> [])"

subsection \<open>An invariant of the inner block\<close>

text \<open>
  What holds of the verdict \<open>r\<close> and of the two answers whenever the inner block is left,
  started from the verdict \<open>r0\<close>.
\<close>

definition tryInvariant ::
  "verdict \<Rightarrow> verdict \<Rightarrow> SmtpResponse option \<Rightarrow> SmtpResponse option \<Rightarrow> bool" where
  "tryInvariant r0 r n t =
     (domain r = domain r0
      \<and> (status r = CATCH_ALL \<longrightarrow> catchAllActive (details r))
      \<and> (status r = VALID \<longrightarrow> \<not> catchAllActive (details r))
      \<and> (status r = CATCH_ALL \<longleftrightarrow>
           (\<exists>nr tr. n = Some nr \<and> t = Some tr
              \<and> classification nr = SUCCESS \<and> classification tr = SUCCESS)))"

text \<open>
  How the block ended against the two answers: it is fulfilled only with both answers
  obtained, and then the reason is missing exactly when the probe was not a transient
  failure and the target answer was classified neither success nor failure.
\<close>

definition tryReason ::
  "unit settled \<Rightarrow> verdict \<Rightarrow> SmtpResponse option \<Rightarrow> SmtpResponse option \<Rightarrow> bool" where
  "tryReason out r n t =
     (case out of
        Fulfils _ \<Rightarrow>
          (\<exists>nr tr. n = Some nr \<and> t = Some tr
             \<and> (reason r = None \<longleftrightarrow>
                  classification nr \<noteq> TRANSIENT_FAIL
                  \<and> (classification tr = INTERMEDIATE \<or> classification tr = PROTOCOL_ERROR)))
      | _ \<Rightarrow> t = None)"

section \<open>Properties of the response parser\<close>

lemma lastLineMatch_iff: "lastLineMatch l \<noteq> None \<longleftrightarrow> completeLine l"
  by (auto simp: lastLineMatch_def completeLine_def split: list.splits)

lemma isIntermediate_iff: "isIntermediate l \<longleftrightarrow> continuationLine l"
  by (auto simp: isIntermediate_def continuationLine_def split: list.splits)

lemma complete_not_continuation: "completeLine l \<Longrightarrow> \<not> continuationLine l"
  by (auto simp: completeLine_def continuationLine_def)

lemma bufferLines_Nil: "bufferLines [] = []"
  by (simp add: bufferLines_def)

lemma parse_Some_iff:
  "parseSmtpResponse buf \<noteq> None \<longleftrightarrow> bufferLines buf \<noteq> [] \<and> completeLine (last (bufferLines buf))"
proof (cases "buf = []")
  case True
  then show ?thesis by (simp add: parseSmtpResponse_def bufferLines_Nil)
next
  case False
  show ?thesis
  proof (cases "bufferLines buf = []")
    case True
    then show ?thesis using False by (simp add: parseSmtpResponse_def Let_def)
  next
    case ne: False
    then have l: "bufferLines buf ! (length (bufferLines buf) - 1) = last (bufferLines buf)"
      by (simp add: last_conv_nth)
    show ?thesis
    proof (cases "lastLineMatch (last (bufferLines buf))")
      case None
      then show ?thesis using False ne l lastLineMatch_iff[of "last (bufferLines buf)"]
        by (simp add: parseSmtpResponse_def Let_def)
    next
      case (Some g)
      then have c: "completeLine (last (bufferLines buf))"
        using lastLineMatch_iff[of "last (bufferLines buf)"] by simp
      then have "\<not> isIntermediate (last (bufferLines buf))"
        using complete_not_continuation isIntermediate_iff by blast
      then show ?thesis using False ne l Some c
        by (simp add: parseSmtpResponse_def Let_def split: prod.splits)
    qed
  qed
qed

lemma splitLines_line:
  "LF \<notin> set l \<Longrightarrow> splitLines (l @ CR # LF # s) = l # splitLines s"
proof (induction l)
  case Nil
  show ?case by simp
next
  case (Cons c l)
  then have "c \<noteq> LF" "LF \<notin> set l" by auto
  moreover have "hd (l @ CR # LF # s) \<noteq> LF"
    using \<open>LF \<notin> set l\<close> by (cases l) auto
  ultimately show ?case using Cons.IH by simp
qed

lemma splitLines_LF:
  "\<exists>x xs. splitLines (pre @ LF # s) = x # xs @ splitLines s"
proof (induction pre rule: length_induct)
  case (1 pre)
  show ?case
  proof (cases pre)
    case Nil
    then show ?thesis by simp
  next
    case (Cons c cs)
    then have "length cs < length pre" by simp
    with 1 obtain x xs where xs: "splitLines (cs @ LF # s) = x # xs @ splitLines s" by blast
    show ?thesis
    proof (cases "c = LF")
      case True
      then show ?thesis using Cons xs by simp
    next
      case nlf: False
      show ?thesis
      proof (cases "c = CR \<and> cs @ LF # s \<noteq> [] \<and> hd (cs @ LF # s) = LF")
        case True
        show ?thesis
        proof (cases cs)
          case Nil
          then show ?thesis using \<open>pre = c # cs\<close> True by simp
        next
          case (Cons d ds)
          with True have "d = LF" by simp
          have "length ds < length pre" using \<open>pre = c # cs\<close> Cons by simp
          with 1 obtain y ys where "splitLines (ds @ LF # s) = y # ys @ splitLines s"
            by blast
          then show ?thesis using \<open>pre = c # cs\<close> Cons True \<open>d = LF\<close> by simp
        qed
      next
        case False
        then show ?thesis using Cons nlf xs by auto
      qed
    qed
  qed
qed

lemma last_bufferLines:
  assumes "pre = [] \<or> last pre = LF" "l \<noteq> []" "LF \<notin> set l"
  shows "bufferLines (pre @ l @ CRLF) \<noteq> [] \<and> last (bufferLines (pre @ l @ CRLF)) = l"
proof -
  have tail: "splitLines (l @ CRLF) = [l, []]"
    using splitLines_line[OF assms(3), of "[]"] by simp
  show ?thesis
  proof (cases "pre = []")
    case True
    then show ?thesis using tail assms(2) by (simp add: bufferLines_def)
  next
    case False
    with assms(1) obtain p where p: "pre = p @ [LF]"
      by (metis append_butlast_last_id)
    obtain xs where "splitLines (p @ LF # (l @ CRLF)) = xs @ splitLines (l @ CRLF)"
      using splitLines_LF[of p "l @ CRLF"] by (metis append_Cons)
    then have "splitLines (pre @ l @ CRLF) = xs @ [l, []]"
      using p tail by simp
    then show ?thesis using assms(2) by (simp add: bufferLines_def)
  qed
qed

text \<open>
  Claim C2.  For every buffer, \<^const>\<open>parseSmtpResponse\<close> returns a response exactly when
  the last non-empty line is three digits followed by the end of the line or by a space.
  The empty buffer gives the incomplete signal, and so does every buffer whose last
  non-empty line is three digits followed by a hyphen; in particular every buffer that ends
  in a line \<^verbatim>\<open>NNN-...\<close> closed by CR LF.
\<close>

theorem parseSmtpResponse_framing:
  "(parseSmtpResponse buf \<noteq> None \<longleftrightarrow>
      bufferLines buf \<noteq> [] \<and> completeLine (last (bufferLines buf)))
   \<and> parseSmtpResponse [] = None
   \<and> (bufferLines buf \<noteq> [] \<and> continuationLine (last (bufferLines buf)) \<longrightarrow>
        parseSmtpResponse buf = None)
   \<and> ((pre = [] \<or> last pre = LF) \<and> isDigit d1 \<and> isDigit d2 \<and> isDigit d3 \<and> LF \<notin> set rest \<longrightarrow>
        parseSmtpResponse (pre @ [d1, d2, d3, CHR ''-''] @ rest @ CRLF) = None)"
proof (intro conjI impI)
  show "parseSmtpResponse buf \<noteq> None \<longleftrightarrow>
      bufferLines buf \<noteq> [] \<and> completeLine (last (bufferLines buf))"
    by (rule parse_Some_iff)
  show "parseSmtpResponse [] = None"
    by (simp add: parseSmtpResponse_def)
  show "parseSmtpResponse buf = None"
    if "bufferLines buf \<noteq> [] \<and> continuationLine (last (bufferLines buf))"
    using that parse_Some_iff[of buf] complete_not_continuation by blast
  show "parseSmtpResponse (pre @ [d1, d2, d3, CHR ''-''] @ rest @ CRLF) = None"
    if h: "(pre = [] \<or> last pre = LF) \<and> isDigit d1 \<and> isDigit d2 \<and> isDigit d3 \<and> LF \<notin> set rest"
  proof -
    let ?l = "[d1, d2, d3, CHR ''-''] @ rest"
    have "LF \<notin> set ?l" using h by (auto simp: isDigit_def)
    then have "bufferLines (pre @ ?l @ CRLF) \<noteq> [] \<and> last (bufferLines (pre @ ?l @ CRLF)) = ?l"
      using h by (intro last_bufferLines) auto
    moreover have "continuationLine ?l" using h by (simp add: continuationLine_def)
    ultimately have "parseSmtpResponse (pre @ ?l @ CRLF) = None"
      using parse_Some_iff[of "pre @ ?l @ CRLF"] complete_not_continuation by metis
    then show ?thesis by simp
  qed
qed

theorem parseSmtpResponse_framing_witness:
  "bufferLines (''250-SIZE 1'' @ CRLF) \<noteq> []
   \<and> continuationLine (last (bufferLines (''250-SIZE 1'' @ CRLF)))
   \<and> parseSmtpResponse (''250-SIZE 1'' @ CRLF) = None
   \<and> isDigit (CHR ''2'') \<and> isDigit (CHR ''5'') \<and> isDigit (CHR ''0'') \<and> LF \<notin> set ''SIZE 1''
   \<and> parseSmtpResponse ([] @ [CHR ''2'', CHR ''5'', CHR ''0'', CHR ''-''] @ ''SIZE 1'' @ CRLF) = None"
  using parseSmtpResponse_framing[of "''250-SIZE 1'' @ CRLF" "[]" "CHR ''2''" "CHR ''5''" "CHR ''0''" "''SIZE 1''"]
  by (simp add: bufferLines_def continuationLine_def isDigit_def)

lemma isDigit_not_space: "isDigit c \<Longrightarrow> \<not> isWhiteSpace c"
  by (auto simp: isDigit_def isWhiteSpace_def)

lemma isDigit_not_sign: "isDigit c \<Longrightarrow> c \<noteq> CHR ''-'' \<and> c \<noteq> CHR ''+''"
  by (auto simp: isDigit_def)

lemma parseInt_three_digits:
  assumes "isDigit d1" "isDigit d2" "isDigit d3"
  shows "parseInt [d1, d2, d3] = Num (100 * digitVal d1 + 10 * digitVal d2 + digitVal d3)"
  using assms isDigit_not_space[OF assms(1)] isDigit_not_sign[OF assms(1)]
  by (simp add: parseInt_def)

lemma lastLineMatch_SomeD:
  "lastLineMatch l = Some (g1, g2) \<Longrightarrow>
     \<exists>d1 d2 d3 rest. l = d1 # d2 # d3 # rest \<and> g1 = [d1, d2, d3]
        \<and> isDigit d1 \<and> isDigit d2 \<and> isDigit d3"
  by (auto simp: lastLineMatch_def split: list.splits if_splits)

lemma digitVal_range: "isDigit c \<Longrightarrow> 0 \<le> digitVal c \<and> digitVal c \<le> 9"
  by (auto simp: isDigit_def digitVal_def)

text \<open>
  Claim C9.  \<^const>\<open>parseSmtpResponse\<close> is a total function without an error branch: on
  every string it returns either the incomplete signal or a response whose code is the
  integer written by the three digits that start the last non-empty line, classified by
  that code.
\<close>

theorem parseSmtpResponse_total:
  "parseSmtpResponse buf = None \<or>
   (\<exists>r d1 d2 d3 rest.
      parseSmtpResponse buf = Some r \<and> bufferLines buf \<noteq> []
      \<and> last (bufferLines buf) = d1 # d2 # d3 # rest
      \<and> isDigit d1 \<and> isDigit d2 \<and> isDigit d3
      \<and> code r = Num (100 * digitVal d1 + 10 * digitVal d2 + digitVal d3)
      \<and> classification r = classifyCode (code r))"
proof (cases "parseSmtpResponse buf")
  case None
  then show ?thesis by simp
next
  case (Some r)
  then have ne: "bufferLines buf \<noteq> []" and nb: "buf \<noteq> []"
    using parse_Some_iff[of buf] by (auto simp: parseSmtpResponse_def)
  then have l: "bufferLines buf ! (length (bufferLines buf) - 1) = last (bufferLines buf)"
    by (simp add: last_conv_nth)
  from Some ne nb l obtain g1 g2 where m: "lastLineMatch (last (bufferLines buf)) = Some (g1, g2)"
    and c: "code r = parseInt g1" and k: "classification r = classifyCode (parseInt g1)"
    by (auto simp: parseSmtpResponse_def Let_def split: option.splits if_splits)
  from lastLineMatch_SomeD[OF m] obtain d1 d2 d3 rest where
    d: "last (bufferLines buf) = d1 # d2 # d3 # rest" "g1 = [d1, d2, d3]"
       "isDigit d1" "isDigit d2" "isDigit d3" by blast
  have "code r = Num (100 * digitVal d1 + 10 * digitVal d2 + digitVal d3)"
    using c d parseInt_three_digits by simp
  then show ?thesis using Some ne d k c by auto
qed

theorem parseSmtpResponse_total_witness:
  "\<exists>r. parseSmtpResponse (''550 no'' @ CRLF) = Some r \<and> code r = Num 550
       \<and> classification r = PERMANENT_FAIL"
proof -
  have s: "parseSmtpResponse (''550 no'' @ CRLF) \<noteq> None"
    by (simp add: parseSmtpResponse_def bufferLines_def lastLineMatch_def isIntermediate_def
        isDigit_def Let_def)
  have b: "last (bufferLines (''550 no'' @ CRLF)) = ''550 no''"
    by (simp add: bufferLines_def)
  from parseSmtpResponse_total[of "''550 no'' @ CRLF"] s b obtain r where
    "parseSmtpResponse (''550 no'' @ CRLF) = Some r"
    "code r = Num (100 * digitVal (CHR ''5'') + 10 * digitVal (CHR ''5'') + digitVal (CHR ''0''))"
    "classification r = classifyCode (code r)"
    by auto
  then show ?thesis by (simp add: digitVal_def)
qed

section \<open>Properties of the DNS resolver\<close>

lemma priorityOr65535_0: "priorityOr65535 (Some 0) = 65535"
  by (simp add: priorityOr65535_def numberToString_def natToString.simps digitChar_def
      parseInt_def isWhiteSpace_def isDigit_def digitVal_def)

lemma priorityOr65535_10: "priorityOr65535 (Some 10) = 10"
  by (simp add: priorityOr65535_def numberToString_def natToString.simps digitChar_def
      parseInt_def isWhiteSpace_def isDigit_def digitVal_def)

text \<open>
  Claim C4.  The claim asks for ascending priorities with a record of priority 0 before
  every record of larger priority.  \<^const>\<open>sortMXByPriority\<close> reads a priority of 0 as
  65535: given a record of priority 10 followed by a record of priority 0, it returns them
  in that order, the priority 0 record last.
\<close>

theorem sortMXByPriority_zero_last:
  "sortMXByPriority [\<lparr>exchange = ''mx10'', priority = Some 10\<rparr>,
                     \<lparr>exchange = ''mx0'', priority = Some 0\<rparr>]
   = [\<lparr>exchange = ''mx10'', priority = Some 10\<rparr>, \<lparr>exchange = ''mx0'', priority = Some 0\<rparr>]"
  by (simp add: sortMXByPriority_def priorityOr65535_0 priorityOr65535_10)

lemma resolveMX_loop_retry:
  assumes "int attempt < maxAttempts"
    and "resolveMX_try (env q ns d) d = Inl err"
    and "classifyError err = SOFT_FAIL \<or> classifyError err = TIMEOUT"
  shows "resolveMX_loop env d ns maxAttempts attempt lastError q
         = resolveMX_loop env d ns maxAttempts (Suc attempt) (Some err) (Suc q)"
  using assms by (subst resolveMX_loop.simps) auto

lemma resolveMX_loop_hard:
  assumes "int attempt < maxAttempts"
    and "resolveMX_try (env q ns d) d = Inl err"
    and "classifyError err \<noteq> SOFT_FAIL" "classifyError err \<noteq> TIMEOUT"
  shows "resolveMX_loop env d ns maxAttempts attempt lastError q
         = (Inl (defaultCode ''EDNS_HARD_FAIL'' (setType (classifyError err) err)), Suc q)"
  using assms by (subst resolveMX_loop.simps) (cases "classifyError err"; simp)

lemma resolveMX_loop_found:
  assumes "int attempt < maxAttempts"
    and "resolveMX_try (env q ns d) d = Inr recs"
  shows "resolveMX_loop env d ns maxAttempts attempt lastError q = (Inr recs, Suc q)"
  using assms by (subst resolveMX_loop.simps) simp

lemma resolveMX_loop_exhausted:
  assumes "\<not> int attempt < maxAttempts"
  shows "resolveMX_loop env d ns maxAttempts attempt (Some e) q
         = (Inl (setAttempts maxAttempts
                   (defaultCode ''EDNS_RETRIES_EXHAUSTED'' (setType SOFT_FAIL e))), q)"
  using assms by (subst resolveMX_loop.simps) simp

lemma try_empty:
  "resolveMX_try (emptyAnswers q ns d) d
   = Inl (setCode ''ENODATA'' (setType NO_MX_RECORDS
      (newError (''No MX records found for domain: '' @ [DQ] @ d @ [DQ]))))"
  by (simp add: resolveMX_try_def emptyAnswers_def)

lemma classify_no_mx_example:
  "classifyError (setCode ''ENODATA'' (setType NO_MX_RECORDS
      (newError (''No MX records found for domain: '' @ [DQ] @ ''example.com'' @ [DQ])))) = SOFT_FAIL"
  by (simp add: classifyError_def newError_def)

lemma valid_example: "isValidDomain ''example.com''"
  by (simp add: isValidDomain_def domainRegex_def isLabel_def isAlnum_def isDigit_def)

lemma noOptions_sel: "opt_nameServers noOptions = None" "opt_retries noOptions = None"
  by (simp_all add: noOptions_def)

lemma loop_empty_3:
  "snd (resolveMX_loop emptyAnswers ''example.com'' ns 3 0 None q) = q + 3
   \<and> (\<exists>e. fst (resolveMX_loop emptyAnswers ''example.com'' ns 3 0 None q) = Inl e
           \<and> err_type e = Some SOFT_FAIL)"
proof -
  let ?e = "setCode ''ENODATA'' (setType NO_MX_RECORDS
      (newError (''No MX records found for domain: '' @ [DQ] @ ''example.com'' @ [DQ])))"
  have t: "\<And>k. resolveMX_try (emptyAnswers k ns ''example.com'') ''example.com'' = Inl ?e"
    by (rule try_empty)
  have c: "classifyError ?e = SOFT_FAIL \<or> classifyError ?e = TIMEOUT"
    using classify_no_mx_example by simp
  have step: "\<And>a le k. int a < 3 \<Longrightarrow>
      resolveMX_loop emptyAnswers ''example.com'' ns 3 a le k
      = resolveMX_loop emptyAnswers ''example.com'' ns 3 (Suc a) (Some ?e) (Suc k)"
    using t c by (intro resolveMX_loop_retry) auto
  have "resolveMX_loop emptyAnswers ''example.com'' ns 3 0 None q
        = resolveMX_loop emptyAnswers ''example.com'' ns 3 (Suc 0) (Some ?e) (Suc q)"
    by (rule step) simp
  also have "\<dots> = resolveMX_loop emptyAnswers ''example.com'' ns 3 (Suc (Suc 0)) (Some ?e) (Suc (Suc q))"
    by (rule step) simp
  also have "\<dots> = resolveMX_loop emptyAnswers ''example.com'' ns 3 (Suc (Suc (Suc 0))) (Some ?e) (Suc (Suc (Suc q)))"
    by (rule step) simp
  also have "\<dots> = (Inl (setAttempts 3
                   (defaultCode ''EDNS_RETRIES_EXHAUSTED'' (setType SOFT_FAIL ?e))), Suc (Suc (Suc q)))"
    by (rule resolveMX_loop_exhausted) simp
  finally show ?thesis by (simp add: newError_def defaultCode_def)
qed

text \<open>
  Claim C3.  The claim asks that a query failing with kind \<^const>\<open>NO_MX_RECORDS\<close> ends
  \<^const>\<open>resolveMX\<close> at once and stops the chain of tiers.  On a network that answers every
  query for \<^verbatim>\<open>example.com\<close> with an empty reply, the first attempt fails with that
  kind, yet \<^const>\<open>resolveMX\<close> makes all three attempts of the tier, and
  \<^const>\<open>resolveMXWithFallback\<close> goes through all three tiers, nine queries in all.
\<close>

theorem no_mx_is_retried:
  "(\<exists>e. resolveMX_try (emptyAnswers 0 PRIMARY_SERVERS ''example.com'') ''example.com'' = Inl e
         \<and> err_type e = Some NO_MX_RECORDS)
   \<and> snd (resolveMX emptyAnswers ''example.com'' PRIMARY_SERVERS MAX_RETRIES 0) = 3
   \<and> snd (resolveMXWithFallback emptyAnswers ''example.com'' noOptions 0) = 9"
proof -
  have r: "\<And>ns q. snd (resolveMX emptyAnswers ''example.com'' ns MAX_RETRIES q) = q + 3
      \<and> (\<exists>e. fst (resolveMX emptyAnswers ''example.com'' ns MAX_RETRIES q) = Inl e
           \<and> err_type e = Some SOFT_FAIL)"
    using loop_empty_3 by (simp add: resolveMX_def valid_example MAX_RETRIES_def)
  have step: "\<And>tier tiers le q. resolverChain_loop emptyAnswers ''example.com'' noOptions (tier # tiers) le q
      = resolverChain_loop emptyAnswers ''example.com'' noOptions tiers
          (Some (projl (fst (resolveMX emptyAnswers ''example.com'' tier MAX_RETRIES q)))) (q + 3)"
  proof -
    fix tier tiers le q
    obtain e where e: "resolveMX emptyAnswers ''example.com'' tier MAX_RETRIES q = (Inl e, q + 3)"
      "err_type e = Some SOFT_FAIL"
      using r[of tier q] by (metis prod.collapse)
    then show "resolverChain_loop emptyAnswers ''example.com'' noOptions (tier # tiers) le q
      = resolverChain_loop emptyAnswers ''example.com'' noOptions tiers
          (Some (projl (fst (resolveMX emptyAnswers ''example.com'' tier MAX_RETRIES q)))) (q + 3)"
      by (simp add: noOptions_sel)
  qed
  have "snd (resolveMXWithFallback emptyAnswers ''example.com'' noOptions 0) = 9"
    by (simp add: resolveMXWithFallback_def step del: resolverChain_loop.simps(2))
  moreover have "\<exists>e. resolveMX_try (emptyAnswers 0 PRIMARY_SERVERS ''example.com'') ''example.com'' = Inl e
         \<and> err_type e = Some NO_MX_RECORDS"
    by (simp add: try_empty newError_def)
  ultimately show ?thesis using r[of PRIMARY_SERVERS 0] by simp
qed

subsection \<open>What the sort and the retry loop do get right\<close>

lemma digit_table:
  "k < 10 \<Longrightarrow> isDigit (''0123456789'' ! k) \<and> digitVal (''0123456789'' ! k) = int k"
  by (auto simp: less_Suc_eq numeral_eq_Suc isDigit_def digitVal_def)

lemma digitChar_props: "isDigit (digitChar d) \<and> digitVal (digitChar d) = int (d mod 10)"
  using digit_table[of "d mod 10"] by (simp add: digitChar_def)

lemma natToString_digits: "natToString n \<noteq> [] \<and> list_all isDigit (natToString n)"
  by (induction n rule: natToString.induct) (subst natToString.simps, simp add: digitChar_props)+

lemma natToString_value:
  "foldl (\<lambda>a c. 10 * a + digitVal c) 0 (natToString n) = int n"
proof (induction n rule: natToString.induct)
  case (1 n)
  show ?case
  proof (cases "n < 10")
    case True
    then show ?thesis by (subst natToString.simps) (simp add: digitChar_props)
  next
    case False
    have "10 * int (n div 10) + int (n mod 10) = int n"
      by (simp add: zmod_int zdiv_int)
    with 1 False show ?thesis
      by (subst natToString.simps) (simp add: digitChar_props)
  qed
qed

lemma parseInt_digits:
  assumes "ds \<noteq> []" "list_all isDigit ds"
  shows "parseInt ds = Num (foldl (\<lambda>a c. 10 * a + digitVal c) 0 ds)"
    and "parseInt (CHR ''-'' # ds) = Num (- foldl (\<lambda>a c. 10 * a + digitVal c) 0 ds)"
proof -
  from assms obtain d r where ds: "ds = d # r" "isDigit d" by (cases ds) auto
  have tw: "takeWhile isDigit ds = ds" using assms(2) by (simp add: list_all_iff)
  have dw: "dropWhile isWhiteSpace ds = ds"
    using ds isDigit_not_space[OF ds(2)] by simp
  have h: "hd ds \<noteq> CHR ''-''" "hd ds \<noteq> CHR ''+''"
    using ds isDigit_not_sign[OF ds(2)] by simp_all
  show "parseInt ds = Num (foldl (\<lambda>a c. 10 * a + digitVal c) 0 ds)"
    using assms(1) by (simp add: parseInt_def dw h tw del: takeWhile_eq_all_conv)
  have "\<not> isWhiteSpace (CHR ''-'')" by (simp add: isWhiteSpace_def)
  then show "parseInt (CHR ''-'' # ds) = Num (- foldl (\<lambda>a c. 10 * a + digitVal c) 0 ds)"
    using assms(1) by (simp add: parseInt_def tw del: takeWhile_eq_all_conv)
qed

lemma parseInt_numberToString: "parseInt (numberToString i) = Num i"
  using parseInt_digits[of "natToString (nat i)"] parseInt_digits[of "natToString (nat (- i))"]
    natToString_digits natToString_value
  by (simp add: numberToString_def)

lemma parseInt_undefined: "parseInt ''undefined'' = NaN"
  by (simp add: parseInt_def isWhiteSpace_def isDigit_def)

lemma priorityOr65535_value:
  "priorityOr65535 p = (case p of None \<Rightarrow> 65535 | Some n \<Rightarrow> if n = 0 then 65535 else n)"
  by (cases p) (simp_all add: priorityOr65535_def parseInt_numberToString parseInt_undefined)

lemma sortMXByPriority_ascending_stable:
  "sorted (map (\<lambda>a. priorityOr65535 (priority a)) (sortMXByPriority xs))
   \<and> filter (\<lambda>a. priorityOr65535 (priority a) = k) (sortMXByPriority xs)
       = filter (\<lambda>a. priorityOr65535 (priority a) = k) xs
   \<and> set (sortMXByPriority xs) = set xs \<and> length (sortMXByPriority xs) = length xs"
  by (simp add: sortMXByPriority_def sort_key_stable)

lemma resolveMX_hard_fail_stops:
  assumes "isValidDomain d" "0 \<le> retries" "env q ns d = Rejected err"
    and "classifyError err = HARD_FAIL \<or> classifyError err = INVALID_DOMAIN"
  shows "resolveMX env d ns retries q
         = (Inl (defaultCode ''EDNS_HARD_FAIL'' (setType (classifyError err) err)), Suc q)"
proof -
  have "resolveMX_try (env q ns d) d = Inl err" using assms(3) by (simp add: resolveMX_try_def)
  then have "resolveMX_loop env d ns (retries + 1) 0 None q
      = (Inl (defaultCode ''EDNS_HARD_FAIL'' (setType (classifyError err) err)), Suc q)"
    using assms(2,4) by (intro resolveMX_loop_hard) auto
  then show ?thesis using assms(1) by (simp add: resolveMX_def)
qed

lemma err_type_hard: "err_type (defaultCode c (setType t e)) = Some t"
  by (cases e) (simp add: defaultCode_def)

lemma resolveMXWithFallback_hard_fail_stops:
  assumes "isValidDomain d" "env q PRIMARY_SERVERS d = Rejected err"
    and "classifyError err = HARD_FAIL \<or> classifyError err = INVALID_DOMAIN"
  shows "resolveMXWithFallback env d noOptions q
         = (Inl (defaultCode ''EDNS_HARD_FAIL'' (setType (classifyError err) err)), Suc q)"
  using resolveMX_hard_fail_stops[where env = env and d = d and q = q and ns = PRIMARY_SERVERS
      and retries = MAX_RETRIES and err = err] assms
  by (auto simp: resolveMXWithFallback_def noOptions_sel MAX_RETRIES_def err_type_hard)

section \<open>Properties of the output mapper\<close>

lemma test_mailbox_full: "testIgnoreCase FULL_INBOX ''5.2.2 Mailbox full''"
  by code_simp

text \<open>
  Claim C8.  For every verdict, \<^const>\<open>formatOutput\<close> sets \<^const>\<open>has_full_inbox\<close> exactly
  when the SMTP code is 452, 552 or 554 and the message matches the full-inbox pattern
  without regard to case, and then \<^const>\<open>is_deliverable\<close> is false.  A verdict with code
  552 and message \<^verbatim>\<open>5.2.2 Mailbox full\<close> is mapped to not deliverable, full inbox,
  SMTP connection made.
\<close>

theorem formatOutput_full_inbox:
  "(has_full_inbox (formatOutput v) \<longleftrightarrow>
      smtpCode (details v) \<in> {Some (Num 452), Some (Num 552), Some (Num 554)}
      \<and> testIgnoreCase FULL_INBOX (case smtpMessage (details v) of None \<Rightarrow> [] | Some m \<Rightarrow> m))
   \<and> (has_full_inbox (formatOutput v) \<longrightarrow> \<not> is_deliverable (formatOutput v))
   \<and> (smtpCode (details v) = Some (Num 552) \<and> smtpMessage (details v) = Some ''5.2.2 Mailbox full''
        \<longrightarrow> \<not> is_deliverable (formatOutput v) \<and> has_full_inbox (formatOutput v)
            \<and> can_connect_smtp (formatOutput v))"
proof -
  have a: "has_full_inbox (formatOutput v) \<longleftrightarrow>
      smtpCode (details v) \<in> {Some (Num 452), Some (Num 552), Some (Num 554)}
      \<and> testIgnoreCase FULL_INBOX (case smtpMessage (details v) of None \<Rightarrow> [] | Some m \<Rightarrow> m)"
    by (simp add: formatOutput_def Let_def)
  have b: "has_full_inbox (formatOutput v) \<longrightarrow> \<not> is_deliverable (formatOutput v)"
    by (simp add: formatOutput_def Let_def)
  have c: "can_connect_smtp (formatOutput v) \<longleftrightarrow> truthyCode (smtpCode (details v))"
    by (simp add: formatOutput_def Let_def)
  show ?thesis using a b c test_mailbox_full by (auto simp: truthyCode_def)
qed

theorem formatOutput_full_inbox_witness:
  "formatOutput \<lparr> email = ''user@example.com'', domain = Some ''example.com'',
      mx = Some ''mx.example.com'', status = VALID, reason = Some ''Recipient accepted'',
      details = \<lparr> smtpCode = Some (Num 552), smtpMessage = Some ''5.2.2 Mailbox full'',
                  catchAllActive = False, greylisted = False \<rparr> \<rparr>
   = \<lparr> can_connect_smtp = True, is_deliverable = False, is_catch_all = False,
       has_full_inbox = True, is_disabled = False \<rparr>"
proof -
  let ?v = "\<lparr> email = ''user@example.com'', domain = Some ''example.com'',
      mx = Some ''mx.example.com'', status = VALID, reason = Some ''Recipient accepted'',
      details = \<lparr> smtpCode = Some (Num 552), smtpMessage = Some ''5.2.2 Mailbox full'',
                  catchAllActive = False, greylisted = False \<rparr> \<rparr>"
  have h: "smtpCode (details ?v) = Some (Num 552)
      \<and> smtpMessage (details ?v) = Some ''5.2.2 Mailbox full''"
    by simp
  have "\<not> is_deliverable (formatOutput ?v) \<and> has_full_inbox (formatOutput ?v)
            \<and> can_connect_smtp (formatOutput ?v)"
    using formatOutput_full_inbox[of ?v] h by blast
  moreover have "\<not> is_catch_all (formatOutput ?v) \<and> \<not> is_disabled (formatOutput ?v)"
    by (simp add: formatOutput_def Let_def)
  ultimately show ?thesis by (cases "formatOutput ?v") simp
qed

section \<open>Properties of the session and of the verifier\<close>

lemma catchAllProbe_status: "status (catchAllProbe n r) = status r"
  by (simp add: catchAllProbe_def)

lemma catchAllProbe_domain: "domain (catchAllProbe n r) = domain r"
  by (simp add: catchAllProbe_def)

lemma catchAllProbe_catchAll:
  "catchAllActive (details (catchAllProbe n r))
     \<longleftrightarrow> catchAllActive (details r) \<or> classification n = SUCCESS"
  by (simp add: catchAllProbe_def)

lemma catchAllProbe_greylisted:
  "greylisted (details (catchAllProbe n r))
     \<longleftrightarrow> greylisted (details r) \<or> classification n = TRANSIENT_FAIL"
  by (auto simp: catchAllProbe_def)

lemma finalClassification_catchAll:
  "catchAllActive (details (finalClassification t r)) = catchAllActive (details r)"
  by (simp add: finalClassification_def Let_def)

lemma finalClassification_domain: "domain (finalClassification t r) = domain r"
  by (simp add: finalClassification_def Let_def)

lemma finalClassification_CATCH_ALL:
  "status r = UNKNOWN \<Longrightarrow>
   status (finalClassification t r) = CATCH_ALL
     \<longleftrightarrow> \<not> greylisted (details r) \<and> classification t = SUCCESS \<and> catchAllActive (details r)"
  by (auto simp: finalClassification_def Let_def)

lemma finalClassification_VALID:
  "status r = UNKNOWN \<Longrightarrow>
   status (finalClassification t r) = VALID
     \<longleftrightarrow> \<not> greylisted (details r) \<and> classification t = SUCCESS \<and> \<not> catchAllActive (details r)"
  by (auto simp: finalClassification_def Let_def)

lemma tryInvariant_reason: "tryInvariant r0 r n t \<Longrightarrow> tryInvariant r0 (r\<lparr> reason := x \<rparr>) n t"
  by (simp add: tryInvariant_def)

lemma tryInvariant_start:
  "status r0 = UNKNOWN \<Longrightarrow> tryInvariant r0 r0 None None"
  by (simp add: tryInvariant_def)

lemma tryInvariant_probe:
  "status r0 = UNKNOWN \<Longrightarrow> tryInvariant r0 (catchAllProbe nr r0) (Some nr) None"
  by (simp add: tryInvariant_def catchAllProbe_status catchAllProbe_domain)

lemma tryInvariant_final:
  assumes "status r0 = UNKNOWN" "\<not> catchAllActive (details r0)" "\<not> greylisted (details r0)"
  shows "tryInvariant r0 (finalClassification tr (catchAllProbe nr r0)) (Some nr) (Some tr)"
proof -
  let ?r1 = "catchAllProbe nr r0"
  have s: "status ?r1 = UNKNOWN" using assms(1) by (simp add: catchAllProbe_status)
  have c: "catchAllActive (details ?r1) \<longleftrightarrow> classification nr = SUCCESS"
    using assms(2) by (simp add: catchAllProbe_catchAll)
  have g: "greylisted (details ?r1) \<longleftrightarrow> classification nr = TRANSIENT_FAIL"
    using assms(3) by (simp add: catchAllProbe_greylisted)
  show ?thesis
    unfolding tryInvariant_def
    using finalClassification_CATCH_ALL[OF s, of tr] finalClassification_VALID[OF s, of tr] c g
    by (auto simp: finalClassification_catchAll finalClassification_domain catchAllProbe_domain)
qed

lemma verifyEmail_try_invariant:
  assumes "verifyEmail_try w options addr d sender r0 cl0 = (out, r, cl, n, t)"
    and "status r0 = UNKNOWN" "\<not> catchAllActive (details r0)" "\<not> greylisted (details r0)"
  shows "tryInvariant r0 r n t"
  using assms(1) tryInvariant_start[OF assms(2)] tryInvariant_probe[OF assms(2)]
    tryInvariant_final[OF assms(2,3,4)]
  by (auto simp: verifyEmail_try_def Let_def split: prod.splits settled.splits)

lemma includesStr_single: "includesStr s [c] \<longleftrightarrow> c \<in> set s"
  by (induction s) auto

lemma splitOn_shape:
  "splitOn sep s =
     takeWhile (\<lambda>c. c \<noteq> sep) s
       # (if sep \<in> set s then splitOn sep (drop 1 (dropWhile (\<lambda>c. c \<noteq> sep) s)) else [])"
  by (induction s) (auto split: list.splits)

lemma splitOn_at:
  assumes "CHR ''@'' \<in> set addr"
  shows "\<exists>rest. splitOn (CHR ''@'') addr = localPart addr # domainPart addr # rest"
proof -
  let ?t = "drop 1 (dropWhile (\<lambda>c. c \<noteq> CHR ''@'') addr)"
  have "splitOn (CHR ''@'') addr = localPart addr # splitOn (CHR ''@'') ?t"
    using assms splitOn_shape[of "CHR ''@''" addr] by (simp add: localPart_def)
  moreover have "\<exists>rest. splitOn (CHR ''@'') ?t = domainPart addr # rest"
    using splitOn_shape[of "CHR ''@''" ?t] by (simp add: domainPart_def)
  ultimately show ?thesis by auto
qed

lemma takeWhile_empty_no_at: "CHR ''@'' \<notin> set addr \<Longrightarrow> addr \<noteq> [] \<Longrightarrow> localPart addr \<noteq> []"
  by (cases addr) (auto simp: localPart_def)

lemma verifyEmail_gate_closed:
  assumes "\<not> passesSyntaxGate addr"
  shows "verifyEmail w addr options
         = Some (\<lparr> email = addr, domain = None, mx = None, status = INVALID,
                   reason = Some ''Invalid email syntax'',
                   details = \<lparr> smtpCode = None, smtpMessage = None,
                               catchAllActive = False, greylisted = False \<rparr> \<rparr>, noEffects)"
proof (cases "CHR ''@'' \<in> set addr")
  case False
  then show ?thesis by (simp add: verifyEmail_def includesStr_single Let_def initialResults_def)
next
  case True
  then obtain rest where sp: "splitOn (CHR ''@'') addr = localPart addr # domainPart addr # rest"
    using splitOn_at by blast
  from True assms have "localPart addr = [] \<or> domainPart addr = []"
    by (simp add: passesSyntaxGate_def)
  then show ?thesis using True sp
    by (auto simp: verifyEmail_def includesStr_single Let_def initialResults_def)
qed

lemma catchAllProbe_reason: "reason (catchAllProbe n r) = reason r"
  by (simp add: catchAllProbe_def)

lemma finalClassification_reason:
  assumes "reason r = None"
  shows "reason (finalClassification t r) = None
     \<longleftrightarrow> \<not> greylisted (details r)
         \<and> (classification t = INTERMEDIATE \<or> classification t = PROTOCOL_ERROR)"
  using assms by (cases "classification t") (auto simp: finalClassification_def Let_def)

lemma verifyEmail_try_reason:
  assumes "verifyEmail_try w options addr d sender r0 cl0 = (out, r, cl, n, t)"
    and "reason r0 = None" "\<not> greylisted (details r0)"
  shows "tryReason out r n t"
proof -
  have f: "\<And>nr tr. reason (finalClassification tr (catchAllProbe nr r0)) = None
     \<longleftrightarrow> classification nr \<noteq> TRANSIENT_FAIL
         \<and> (classification tr = INTERMEDIATE \<or> classification tr = PROTOCOL_ERROR)"
    using assms(2,3) by (simp add: finalClassification_reason catchAllProbe_reason
        catchAllProbe_greylisted)
  show ?thesis using assms(1) f
    by (auto simp: verifyEmail_try_def tryReason_def Let_def split: prod.splits settled.splits)
qed

lemma verifyEmail_shape:
  assumes "passesSyntaxGate addr" and "verifyEmail w addr options = Some (r, eff)"
  shows "(\<exists>q. r = (initialResults addr)\<lparr> domain := Some (domainPart addr), status := INVALID,
                    reason := Some ''No MX records found'' \<rparr>
              \<and> eff = noEffects\<lparr> dnsQueries := q \<rparr>)
         \<or> (\<exists>r2 sender cl0 out r3 cl.
               status r2 = UNKNOWN \<and> reason r2 = None \<and> domain r2 = Some (domainPart addr)
               \<and> \<not> catchAllActive (details r2) \<and> \<not> greylisted (details r2)
               \<and> verifyEmail_try w options addr (domainPart addr) sender r2 cl0
                   = (out, r3, cl, nonceRes eff, targetRes eff)
               \<and> ((\<exists>e. out = Rejects e \<and> r = r3\<lparr> reason := Some (''SMTP Error: '' @ e) \<rparr>)
                    \<or> (out = Fulfils () \<and> r = r3)))"
proof -
  from assms(1) have at: "CHR ''@'' \<in> set addr" and ne: "localPart addr \<noteq> []" "domainPart addr \<noteq> []"
    by (simp_all add: passesSyntaxGate_def)
  then obtain rest where sp: "splitOn (CHR ''@'') addr = localPart addr # domainPart addr # rest"
    using splitOn_at by blast
  have nonempty: "addr \<noteq> []" using at by auto
  let ?r1 = "(initialResults addr)\<lparr> domain := Some (domainPart addr) \<rparr>"
  obtain mxResult q where mx: "getMXRecords (dns w) (domainPart addr) noOptions 0 = (mxResult, q)"
    by (cases "getMXRecords (dns w) (domainPart addr) noOptions 0")
  show ?thesis
  proof (cases "\<not> success mxResult \<or> length (records mxResult) = 0")
    case True
    then have "verifyEmail w addr options
        = Some (?r1\<lparr> status := INVALID, reason := Some ''No MX records found'' \<rparr>,
                noEffects\<lparr> dnsQueries := q \<rparr>)"
      using at ne sp nonempty mx
      by (simp add: verifyEmail_def includesStr_single Let_def)
    with assms(2) show ?thesis by auto
  next
    case False
    let ?r2 = "?r1\<lparr> mx := Some (exchange (hd (records mxResult))) \<rparr>"
    let ?sender = "(case senderEmail options of
                               Some s \<Rightarrow> if s \<noteq> [] then s else ''verify@'' @ domainPart addr
                             | None \<Rightarrow> ''verify@'' @ domainPart addr)"
    let ?cl0 = "newSmtpClient (exchange (hd (records mxResult))) SMTP_PORT"
    obtain out r3 cl n t where tr:
      "verifyEmail_try w options addr (domainPart addr) ?sender ?r2 ?cl0 = (out, r3, cl, n, t)"
      using prod_cases5 by blast
    have v: "verifyEmail w addr options =
        (case out of Pending \<Rightarrow> None
         | Rejects e \<Rightarrow> Some (r3\<lparr> reason := Some (''SMTP Error: '' @ e) \<rparr>,
                            \<lparr> dnsQueries = q, connectCalls = 1, wire = sent (quit (smtp w) cl),
                              nonceRes = n, targetRes = t \<rparr>)
         | Fulfils _ \<Rightarrow> Some (r3,
                            \<lparr> dnsQueries = q, connectCalls = 1, wire = sent (quit (smtp w) cl),
                              nonceRes = n, targetRes = t \<rparr>))"
      using at ne sp nonempty mx False tr
      by (simp add: verifyEmail_def includesStr_single Let_def split: settled.splits)
    have start: "status ?r2 = UNKNOWN \<and> reason ?r2 = None \<and> domain ?r2 = Some (domainPart addr)
               \<and> \<not> catchAllActive (details ?r2) \<and> \<not> greylisted (details ?r2)"
      by (simp add: initialResults_def)
    have "(\<exists>e. out = Rejects e \<and> r = r3\<lparr> reason := Some (''SMTP Error: '' @ e) \<rparr>)
            \<or> (out = Fulfils () \<and> r = r3)"
      and "nonceRes eff = n" "targetRes eff = t"
      using v assms(2) by (cases out; auto)+
    with tr start show ?thesis by blast
  qed
qed

lemma verifyEmail_gate_open:
  assumes "passesSyntaxGate addr" and "verifyEmail w addr options = Some (r, eff)"
  shows "domain r = Some (domainPart addr)
         \<and> (status r = CATCH_ALL \<longrightarrow> catchAllActive (details r))
         \<and> (status r = VALID \<longrightarrow> \<not> catchAllActive (details r))
         \<and> (status r = CATCH_ALL \<longleftrightarrow>
              (\<exists>nr tr. nonceRes eff = Some nr \<and> targetRes eff = Some tr
                 \<and> classification nr = SUCCESS \<and> classification tr = SUCCESS))"
  using verifyEmail_shape[OF assms]
proof (elim disjE exE conjE)
  fix q
  assume "r = (initialResults addr)\<lparr> domain := Some (domainPart addr), status := INVALID,
                    reason := Some ''No MX records found'' \<rparr>"
    "eff = noEffects\<lparr> dnsQueries := q \<rparr>"
  then show ?thesis by (simp add: noEffects_def)
next
  fix r2 sender cl0 out r3 cl e
  assume a: "status r2 = UNKNOWN" "domain r2 = Some (domainPart addr)"
    "\<not> catchAllActive (details r2)" "\<not> greylisted (details r2)"
    "verifyEmail_try w options addr (domainPart addr) sender r2 cl0
       = (out, r3, cl, nonceRes eff, targetRes eff)"
    and r: "r = r3\<lparr> reason := Some (''SMTP Error: '' @ e) \<rparr>"
  from verifyEmail_try_invariant[OF a(5,1,3,4)] tryInvariant_reason r a(2)
  show ?thesis by (simp add: tryInvariant_def)
next
  fix r2 sender cl0 out r3 cl
  assume a: "status r2 = UNKNOWN" "domain r2 = Some (domainPart addr)"
    "\<not> catchAllActive (details r2)" "\<not> greylisted (details r2)"
    "verifyEmail_try w options addr (domainPart addr) sender r2 cl0
       = (out, r3, cl, nonceRes eff, targetRes eff)"
    and r: "r = r3"
  from verifyEmail_try_invariant[OF a(5,1,3,4)] r a(2)
  show ?thesis by (simp add: tryInvariant_def)
qed

lemma verifyEmail_reason_None_iff:
  assumes "verifyEmail w addr options = Some (r, eff)"
  shows "reason r = None \<longleftrightarrow>
           (\<exists>nr tr. nonceRes eff = Some nr \<and> targetRes eff = Some tr
              \<and> classification nr \<noteq> TRANSIENT_FAIL
              \<and> (classification tr = INTERMEDIATE \<or> classification tr = PROTOCOL_ERROR))"
proof (cases "passesSyntaxGate addr")
  case False
  then show ?thesis using verifyEmail_gate_closed[OF False, of w options] assms
    by (auto simp: noEffects_def)
next
  case True
  from verifyEmail_shape[OF True assms] show ?thesis
  proof (elim disjE exE conjE)
    fix q
    assume "r = (initialResults addr)\<lparr> domain := Some (domainPart addr), status := INVALID,
                    reason := Some ''No MX records found'' \<rparr>"
      "eff = noEffects\<lparr> dnsQueries := q \<rparr>"
    then show ?thesis by (simp add: noEffects_def)
  next
    fix r2 sender cl0 out r3 cl e
    assume a: "reason r2 = None" "\<not> greylisted (details r2)"
      "verifyEmail_try w options addr (domainPart addr) sender r2 cl0
         = (out, r3, cl, nonceRes eff, targetRes eff)"
      and o: "out = Rejects e" and r: "r = r3\<lparr> reason := Some (''SMTP Error: '' @ e) \<rparr>"
    from verifyEmail_try_reason[OF a(3,1,2)] o r
    show ?thesis by (simp add: tryReason_def)
  next
    fix r2 sender cl0 out r3 cl
    assume a: "reason r2 = None" "\<not> greylisted (details r2)"
      "verifyEmail_try w options addr (domainPart addr) sender r2 cl0
         = (out, r3, cl, nonceRes eff, targetRes eff)"
      and o: "out = Fulfils ()" and r: "r = r3"
    from verifyEmail_try_reason[OF a(3,1,2)] o r
    show ?thesis by (auto simp: tryReason_def)
  qed
qed

lemma passesSyntaxGate_two_ats: "passesSyntaxGate ''a@b.com@c'' \<and> domainPart ''a@b.com@c'' = ''b.com''"
  by code_simp

lemma acceptAll_two_ats_returns: "verifyEmail acceptAll ''a@b.com@c'' defaultOptions \<noteq> None"
  by code_simp

lemma gate_closed_example: "\<not> passesSyntaxGate ''@b''"
  by code_simp

text \<open>
  Claim C5, as amended.  \<^const>\<open>verifyEmail\<close> goes past the syntax gate, recording the domain,
  exactly when the string has at least one \<^verbatim>\<open>@\<close> with text before the first one and
  text between the first one and the next one (or the end); the domain recorded is that
  text.  For every other string it returns at once the verdict \<^const>\<open>INVALID\<close> with the
  reason \<^verbatim>\<open>Invalid email syntax\<close>, after no DNS query and no connection.
\<close>

theorem verifyEmail_syntax_gate:
  "(\<not> passesSyntaxGate addr \<longrightarrow>
      verifyEmail w addr options
        = Some (\<lparr> email = addr, domain = None, mx = None, status = INVALID,
                  reason = Some ''Invalid email syntax'',
                  details = \<lparr> smtpCode = None, smtpMessage = None,
                              catchAllActive = False, greylisted = False \<rparr> \<rparr>,
                \<lparr> dnsQueries = 0, connectCalls = 0, wire = [], nonceRes = None,
                  targetRes = None \<rparr>))
   \<and> (passesSyntaxGate addr \<longrightarrow>
        (\<forall>r eff. verifyEmail w addr options = Some (r, eff) \<longrightarrow>
           domain r = Some (domainPart addr)))"
  using verifyEmail_gate_closed[of addr w options] verifyEmail_gate_open[of addr w options]
  by (auto simp: noEffects_def)

theorem verifyEmail_syntax_gate_witness:
  "\<not> passesSyntaxGate ''@b''
   \<and> verifyEmail noMail ''@b'' defaultOptions
       = Some (\<lparr> email = ''@b'', domain = None, mx = None, status = INVALID,
                 reason = Some ''Invalid email syntax'',
                 details = \<lparr> smtpCode = None, smtpMessage = None,
                             catchAllActive = False, greylisted = False \<rparr> \<rparr>,
               \<lparr> dnsQueries = 0, connectCalls = 0, wire = [], nonceRes = None,
                 targetRes = None \<rparr>)
   \<and> passesSyntaxGate ''a@b.com@c''
   \<and> verifyEmail acceptAll ''a@b.com@c'' defaultOptions \<noteq> None
   \<and> domain (fst (the (verifyEmail acceptAll ''a@b.com@c'' defaultOptions))) = Some ''b.com''"
proof -
  have c: "verifyEmail noMail ''@b'' defaultOptions
       = Some (\<lparr> email = ''@b'', domain = None, mx = None, status = INVALID,
                 reason = Some ''Invalid email syntax'',
                 details = \<lparr> smtpCode = None, smtpMessage = None,
                             catchAllActive = False, greylisted = False \<rparr> \<rparr>,
               \<lparr> dnsQueries = 0, connectCalls = 0, wire = [], nonceRes = None,
                 targetRes = None \<rparr>)"
    using verifyEmail_syntax_gate[of "''@b''" noMail defaultOptions] gate_closed_example
    by blast
  obtain r eff where e: "verifyEmail acceptAll ''a@b.com@c'' defaultOptions = Some (r, eff)"
    using acceptAll_two_ats_returns by auto
  then have "domain r = Some (domainPart ''a@b.com@c'')"
    using verifyEmail_syntax_gate[of "''a@b.com@c''" acceptAll defaultOptions]
      passesSyntaxGate_two_ats by blast
  then have "domain (fst (the (verifyEmail acceptAll ''a@b.com@c'' defaultOptions))) = Some ''b.com''"
    using e passesSyntaxGate_two_ats by simp
  then show ?thesis
    using c gate_closed_example passesSyntaxGate_two_ats acceptAll_two_ats_returns by blast
qed

text \<open>
  Claim C5 as stated fails: the string \<^verbatim>\<open>a@b.com@c\<close> has two \<^verbatim>\<open>@\<close>, and
  \<^const>\<open>verifyEmail\<close> goes past the gate with the domain \<^verbatim>\<open>b.com\<close>, makes a DNS
  query and opens a connection.
\<close>

theorem verifyEmail_two_ats_pass:
  "count_list ''a@b.com@c'' (CHR ''@'') = 2
   \<and> verifyEmail acceptAll ''a@b.com@c'' defaultOptions \<noteq> None
   \<and> domain (fst (the (verifyEmail acceptAll ''a@b.com@c'' defaultOptions))) = Some ''b.com''
   \<and> status (fst (the (verifyEmail acceptAll ''a@b.com@c'' defaultOptions))) = CATCH_ALL
   \<and> dnsQueries (snd (the (verifyEmail acceptAll ''a@b.com@c'' defaultOptions))) = 1
   \<and> connectCalls (snd (the (verifyEmail acceptAll ''a@b.com@c'' defaultOptions))) = 1"
  by code_simp

lemma acceptAll_catch_all:
  "verifyEmail acceptAll ''user@example.com'' defaultOptions \<noteq> None
   \<and> status (fst (the (verifyEmail acceptAll ''user@example.com'' defaultOptions))) = CATCH_ALL"
  by code_simp

lemma rejectsProbe_valid:
  "verifyEmail rejectsProbe ''user@example.com'' defaultOptions \<noteq> None
   \<and> status (fst (the (verifyEmail rejectsProbe ''user@example.com'' defaultOptions))) = VALID"
  by code_simp

text \<open>
  Claim C6.  For every result that \<^const>\<open>verifyEmail\<close> returns: a status of
  \<^const>\<open>CATCH_ALL\<close> comes with \<^const>\<open>catchAllActive\<close> set, a status of \<^const>\<open>VALID\<close>
  with \<^const>\<open>catchAllActive\<close> clear, and the status is \<^const>\<open>CATCH_ALL\<close> exactly when the
  answer to the probe and the answer to the target address were both obtained and both
  classified \<^const>\<open>SUCCESS\<close>.
\<close>

theorem verifyEmail_catch_all:
  assumes "verifyEmail w addr options = Some (r, eff)"
  shows "(status r = CATCH_ALL \<longrightarrow> catchAllActive (details r))
         \<and> (status r = VALID \<longrightarrow> \<not> catchAllActive (details r))
         \<and> (status r = CATCH_ALL \<longleftrightarrow>
              (\<exists>nr tr. nonceRes eff = Some nr \<and> targetRes eff = Some tr
                 \<and> classification nr = SUCCESS \<and> classification tr = SUCCESS))"
proof (cases "passesSyntaxGate addr")
  case True
  then show ?thesis using verifyEmail_gate_open[OF True assms] by blast
next
  case False
  then show ?thesis using verifyEmail_gate_closed[OF False, of w options] assms
    by (auto simp: noEffects_def)
qed

theorem verifyEmail_catch_all_witness:
  "verifyEmail acceptAll ''user@example.com'' defaultOptions \<noteq> None
   \<and> status (fst (the (verifyEmail acceptAll ''user@example.com'' defaultOptions))) = CATCH_ALL
   \<and> catchAllActive (details (fst (the (verifyEmail acceptAll ''user@example.com'' defaultOptions))))
   \<and> verifyEmail rejectsProbe ''user@example.com'' defaultOptions \<noteq> None
   \<and> status (fst (the (verifyEmail rejectsProbe ''user@example.com'' defaultOptions))) = VALID
   \<and> \<not> catchAllActive (details (fst (the (verifyEmail rejectsProbe ''user@example.com'' defaultOptions))))"
proof -
  let ?a = "verifyEmail acceptAll ''user@example.com'' defaultOptions"
  let ?b = "verifyEmail rejectsProbe ''user@example.com'' defaultOptions"
  have a: "?a = Some (fst (the ?a), snd (the ?a))" using acceptAll_catch_all by auto
  have b: "?b = Some (fst (the ?b), snd (the ?b))" using rejectsProbe_valid by auto
  have "catchAllActive (details (fst (the ?a)))"
    using verifyEmail_catch_all[OF a] acceptAll_catch_all by blast
  moreover have "\<not> catchAllActive (details (fst (the ?b)))"
    using verifyEmail_catch_all[OF b] rejectsProbe_valid by blast
  ultimately show ?thesis using acceptAll_catch_all rejectsProbe_valid by blast
qed

text \<open>
  Claim C7.  The claim asks for a reason in every result, whatever the classification of the
  answer to the target address.  Against a server that answers the target address with a
  code 354, classified \<^const>\<open>INTERMEDIATE\<close>, \<^const>\<open>verifyEmail\<close> returns the status
  \<^const>\<open>UNKNOWN\<close> with no reason at all.
\<close>

theorem verifyEmail_reason_null:
  "verifyEmail answers354 ''user@example.com'' defaultOptions \<noteq> None
   \<and> status (fst (the (verifyEmail answers354 ''user@example.com'' defaultOptions))) = UNKNOWN
   \<and> reason (fst (the (verifyEmail answers354 ''user@example.com'' defaultOptions))) = None
   \<and> map_option classification
        (targetRes (snd (the (verifyEmail answers354 ''user@example.com'' defaultOptions))))
      = Some INTERMEDIATE"
  by code_simp

theorem verifyEmail_reason_null_witness:
  "reason (fst (the (verifyEmail answers354 ''user@example.com'' defaultOptions))) = None"
  using verifyEmail_reason_null by blast

lemma readResponse_incomplete_rejects:
  "parseSmtpResponse raw = None \<Longrightarrow>
     readResponse (Data raw # rest) = Rejects ''Empty or invalid SMTP response''"
  by (simp add: readResponse_def)

text \<open>
  Claim C1.  The claim asks that a response split over several chunks is read to its end.
  Given a first chunk that holds only a continuation line and a second chunk that completes
  the response, \<^const>\<open>readResponse\<close> is settled by the first chunk alone and rejects, although
  the two chunks together parse to a response of code 250.
\<close>

theorem readResponse_rejects_first_chunk:
  "readResponse [Data (''250-mx.example.com'' @ CRLF), Data (''250 OK'' @ CRLF)]
     = Rejects ''Empty or invalid SMTP response''
   \<and> map_option code (parseSmtpResponse ((''250-mx.example.com'' @ CRLF) @ (''250 OK'' @ CRLF)))
     = Some (Num 250)"
  by code_simp

end
